theory Spec2Isabelle
  imports Main "HOL-Library.Sublist"
begin

section \<open>The build script \<^verbatim>\<open>build_lib.py\<close> as a state-passing program\<close>

text \<open>
  \<^verbatim>\<open>build_lib.py\<close> is a straight-line script: it parses the command line, fills
  \<^verbatim>\<open>warp.config\<close>, looks for the CUDA toolkit and (on Windows) the host compiler,
  optionally checks out and builds LLVM with three \<^verbatim>\<open>cmake\<close> invocations, and then,
  inside one \<^verbatim>\<open>try/except Exception\<close>, calls \<^verbatim>\<open>warp.build.build_dll\<close> for
  \<^verbatim>\<open>clang.dll\<close> (optionally) and \<^verbatim>\<open>warp.dll\<close>.

  The model runs the script on the parsed arguments and on a \<open>world\<close> that answers every
  call leaving the script. A run yields the list of calls it made, in order, and the way
  the process ended. The script needs Python 3 to be parsed at all (it uses f-strings), so
  the version check of lines 6-7 never fires and is not a branch of the model.
\<close>

subsection \<open>Data\<close>

text \<open>A raised \<^verbatim>\<open>Exception\<close>; the string is \<^verbatim>\<open>str(e)\<close>.\<close>

datatype exn = Exn string

text \<open>How the process ends: the script runs off its end, calls \<^verbatim>\<open>sys.exit(n)\<close>,
  or dies of an exception nothing caught.\<close>

datatype outcome = Finished | SysExit int | Uncaught exn

fun exit_status :: "outcome \<Rightarrow> int" where
  "exit_status Finished = 0"
| "exit_status (SysExit n) = n"
| "exit_status (Uncaught e) = 1"

text \<open>The namespace returned by \<^verbatim>\<open>parser.parse_args()\<close> (lines 18-28). The three path
  options have no default, so they are \<open>None\<close> when not given. \<^verbatim>\<open>--mode\<close> is declared with
  \<^verbatim>\<open>type=str\<close> and no \<^verbatim>\<open>choices\<close>: the parser accepts every string.\<close>

record args =
  msvc_path :: "string option"
  sdk_path :: "string option"
  cuda_path :: "string option"
  mode :: string
  verbose :: bool
  verify_fp :: bool
  fast_math :: bool
  quick :: bool
  build_llvm :: bool

text \<open>The attributes of \<^verbatim>\<open>warp.config\<close> that the script assigns.\<close>

record config =
  config_verbose :: bool
  config_mode :: string
  config_verify_fp :: bool
  config_fast_math :: bool
  config_cuda_path :: "string option"
  config_host_compiler :: "string option"

text \<open>The keyword arguments of one call of \<^verbatim>\<open>warp.build.build_dll\<close>. The call for
  \<^verbatim>\<open>warp.dll\<close> passes no \<^verbatim>\<open>libs\<close>, the call for \<^verbatim>\<open>clang.dll\<close> passes no
  \<^verbatim>\<open>quick\<close>: a keyword that is not passed is \<open>None\<close>.\<close>

record target =
  dll_path :: string
  cpp_paths :: "string list"
  cu_path :: "string option"
  libs :: "string list option"
  mode_kw :: string
  verify_fp_kw :: bool
  fast_math_kw :: bool
  use_cache :: bool
  quick_kw :: "bool option"

text \<open>Everything outside the script. \<open>path_join\<close> is \<^verbatim>\<open>os.path.join\<close> (it differs
  between \<^verbatim>\<open>posixpath\<close> and \<^verbatim>\<open>ntpath\<close>), \<open>capitalize\<close> is Python's
  \<^verbatim>\<open>str.capitalize\<close> (it follows the Unicode case tables, which are no part of the
  script), \<open>base_path\<close> the directory of the script, \<open>environ\<close> is \<^verbatim>\<open>os.environ\<close>;
  the other fields answer the calls into \<^verbatim>\<open>warp.build\<close>, \<^verbatim>\<open>git\<close>,
  \<^verbatim>\<open>subprocess\<close> and \<^verbatim>\<open>os\<close>, \<open>Inl\<close> when the call raises.\<close>

record world =
  sys_platform :: string
  os_name :: string
  base_path :: string
  path_join :: "string \<Rightarrow> string \<Rightarrow> string"
  capitalize :: "string \<Rightarrow> string"
  environ :: "string \<Rightarrow> string option"
  set_msvc_compiler :: "string option \<Rightarrow> string option \<Rightarrow> exn + unit"
  find_host_compiler :: "exn + string option"
  path_exists :: "string \<Rightarrow> bool"
  clone_from :: "string \<Rightarrow> string \<Rightarrow> exn + unit"
  open_repo :: "string \<Rightarrow> exn + unit"
  check_call :: "string list \<Rightarrow> exn + unit"
  walk :: "string \<Rightarrow> (string \<times> string list \<times> string list) list"
  build_dll :: "target \<Rightarrow> exn + unit"

datatype stage = Configure | Build | Install

text \<open>The calls a run makes, in the order it makes them. \<open>CheckCall\<close> carries the
  stage the command line belongs to (\<^verbatim>\<open>cmake_gen\<close>, \<^verbatim>\<open>cmake_build\<close>,
  \<^verbatim>\<open>cmake_install\<close>); \<open>CloneFrom\<close> carries url, destination, branch and depth.\<close>

datatype event =
    PrintArgs args
  | Print string
  | EnvGet string
  | SetMsvcCompiler "string option" "string option"
  | FindHostCompiler
  | PathExists string
  | CloneFrom string string string nat
  | OpenRepo string
  | CheckCall stage "string list"
  | Walk string
  | BuildDll target

text \<open>A step of the script: the calls it made, and either the end of the process or the
  value it continues with.\<close>

type_synonym 'a step = "event list \<times> (outcome + 'a)"

definition then_step :: "'a step \<Rightarrow> ('a \<Rightarrow> 'b step) \<Rightarrow> 'b step" where
  "then_step m f =
     (case m of
        (es, Inl out) \<Rightarrow> (es, Inl out)
      | (es, Inr v) \<Rightarrow> (case f v of (es', r) \<Rightarrow> (es @ es', r)))"

subsection \<open>Python's strings\<close>

text \<open>Truth value of an optional string: \<^verbatim>\<open>None\<close> and \<^verbatim>\<open>""\<close> are false.\<close>

fun truthy :: "string option \<Rightarrow> bool" where
  "truthy None = False"
| "truthy (Some s) = (s \<noteq> [])"

text \<open>What \<^verbatim>\<open>str.capitalize\<close> does to a string of ASCII characters: the first
  character in upper case, the others in lower case; a character that is not a letter
  stays as it is. It stands for \<open>capitalize\<close> in the sample machines below, whose mode
  strings are ASCII; on other strings Python's function changes more.\<close>

definition ascii_lower :: string where
  "ascii_lower = ''abcdefghijklmnopqrstuvwxyz''"

definition ascii_upper :: string where
  "ascii_upper = ''ABCDEFGHIJKLMNOPQRSTUVWXYZ''"

definition upper_char :: "char \<Rightarrow> char" where
  "upper_char c = (case map_of (zip ascii_lower ascii_upper) c of None \<Rightarrow> c | Some u \<Rightarrow> u)"

definition lower_char :: "char \<Rightarrow> char" where
  "lower_char c = (case map_of (zip ascii_upper ascii_lower) c of None \<Rightarrow> c | Some l \<Rightarrow> l)"

fun ascii_capitalize :: "string \<Rightarrow> string" where
  "ascii_capitalize [] = []"
| "ascii_capitalize (c # cs) = upper_char c # map lower_char cs"

text \<open>\<^verbatim>\<open>posixpath.join\<close> of two components, the \<open>path_join\<close> of a POSIX world.\<close>

definition posix_join :: "string \<Rightarrow> string \<Rightarrow> string" where
  "posix_join a b =
     (if b \<noteq> [] \<and> hd b = CHR ''/'' then b
      else if a = [] \<or> last a = CHR ''/'' then a @ b
      else a @ ''/'' @ b)"

subsection \<open>Lines 30-60: configuration and CUDA discovery\<close>

definition build_path :: "world \<Rightarrow> string" where
  "build_path w = path_join w (base_path w) ''warp''"

definition setup_config :: "args \<Rightarrow> config" where
  "setup_config a =
     \<lparr>config_verbose = verbose a, config_mode = mode a, config_verify_fp = verify_fp a,
      config_fast_math = fast_math a, config_cuda_path = None, config_host_compiler = None\<rparr>"

text \<open>\<^verbatim>\<open>os.environ.get('CUDA_HOME') or os.environ.get('CUDA_PATH')\<close>: the second
  variable is read only when the first is unset or empty.\<close>

definition find_cuda :: "world \<Rightarrow> event list \<times> string option" where
  "find_cuda w =
     (let cuda_home = environ w ''CUDA_HOME'' in
      if truthy cuda_home then ([EnvGet ''CUDA_HOME''], cuda_home)
      else ([EnvGet ''CUDA_HOME'', EnvGet ''CUDA_PATH''], environ w ''CUDA_PATH''))"

definition setup_cuda :: "args \<Rightarrow> world \<Rightarrow> config \<Rightarrow> event list \<times> config" where
  "setup_cuda a w c =
     (if sys_platform w = ''darwin'' then ([], c\<lparr>config_cuda_path := None\<rparr>)
      else if truthy (cuda_path a) then ([], c\<lparr>config_cuda_path := cuda_path a\<rparr>)
      else (case find_cuda w of (es, p) \<Rightarrow> (es, c\<lparr>config_cuda_path := p\<rparr>)))"

subsection \<open>Lines 63-76: MSVC and WinSDK\<close>

definition msvc_error :: string where
  "msvc_error = ''Warp build error: Could not find MSVC compiler''"

definition setup_host_compiler :: "args \<Rightarrow> world \<Rightarrow> config \<Rightarrow> config step" where
  "setup_host_compiler a w c =
     (if os_name w = ''nt'' then
        (if truthy (sdk_path a) \<and> truthy (msvc_path a) then
           (case set_msvc_compiler w (msvc_path a) (sdk_path a) of
              Inl e \<Rightarrow> ([SetMsvcCompiler (msvc_path a) (sdk_path a)], Inl (Uncaught e))
            | Inr _ \<Rightarrow> ([SetMsvcCompiler (msvc_path a) (sdk_path a)], Inr c))
         else
           (case find_host_compiler w of
              Inl e \<Rightarrow> ([FindHostCompiler], Inl (Uncaught e))
            | Inr hc \<Rightarrow>
                if \<not> truthy hc then ([FindHostCompiler, Print msvc_error], Inl (SysExit 1))
                else ([FindHostCompiler], Inr (c\<lparr>config_host_compiler := hc\<rparr>))))
      else ([], Inr c))"

subsection \<open>Lines 79-128: checking out and building LLVM\<close>

definition llvm_project_path :: "world \<Rightarrow> string" where
  "llvm_project_path w = path_join w (base_path w) ''external/llvm-project''"

definition llvm_url :: string where
  "llvm_url = ''https://github.com/llvm/llvm-project.git''"

text \<open>\<^verbatim>\<open>shallow_clone\<close> is the constant \<^verbatim>\<open>True\<close>, so only the shallow clone can run.\<close>

definition checkout :: "world \<Rightarrow> unit step" where
  "checkout w =
     (let p = llvm_project_path w in
      if \<not> path_exists w p then
        (case clone_from w llvm_url p of
           Inl e \<Rightarrow> ([PathExists p, CloneFrom llvm_url p ''llvmorg-15.0.7'' 1], Inl (Uncaught e))
         | Inr _ \<Rightarrow> ([PathExists p, CloneFrom llvm_url p ''llvmorg-15.0.7'' 1], Inr ()))
      else
        (case open_repo w p of
           Inl e \<Rightarrow> ([PathExists p, OpenRepo p], Inl (Uncaught e))
         | Inr _ \<Rightarrow> ([PathExists p, OpenRepo p], Inr ())))"

definition build_type :: "world \<Rightarrow> config \<Rightarrow> string" where
  "build_type w c = capitalize w (config_mode c)"

definition llvm_path :: "world \<Rightarrow> string" where
  "llvm_path w = path_join w (llvm_project_path w) ''llvm''"

definition llvm_build_path :: "world \<Rightarrow> config \<Rightarrow> string" where
  "llvm_build_path w c = path_join w (llvm_project_path w) (''out/build/'' @ build_type w c)"

definition llvm_install_path :: "world \<Rightarrow> config \<Rightarrow> string" where
  "llvm_install_path w c = path_join w (llvm_project_path w) (''out/install/'' @ build_type w c)"

definition cmake_gen :: "world \<Rightarrow> config \<Rightarrow> string list" where
  "cmake_gen w c =
     [''cmake'', ''-S'', llvm_path w,
      ''-B'', llvm_build_path w c,
      ''-G'', ''Ninja'',
      ''-D'', ''CMAKE_BUILD_TYPE='' @ build_type w c,
      ''-D'', ''LLVM_USE_CRT_RELEASE=MT'',
      ''-D'', ''LLVM_USE_CRT_DEBUG=MTd'',
      ''-D'', ''LLVM_TARGETS_TO_BUILD=X86'',
      ''-D'', ''LLVM_ENABLE_PROJECTS=clang'',
      ''-D'', ''LLVM_ENABLE_ZLIB=FALSE'',
      ''-D'', ''LLVM_ENABLE_ZSTD=FALSE'',
      ''-D'', ''LLVM_BUILD_LLVM_C_DYLIB=FALSE'',
      ''-D'', ''LLVM_BUILD_RUNTIME=FALSE'',
      ''-D'', ''LLVM_BUILD_RUNTIMES=FALSE'',
      ''-D'', ''LLVM_BUILD_TOOLS=FALSE'',
      ''-D'', ''LLVM_BUILD_UTILS=FALSE'',
      ''-D'', ''LLVM_INCLUDE_BENCHMARKS=FALSE'',
      ''-D'', ''LLVM_INCLUDE_DOCS=FALSE'',
      ''-D'', ''LLVM_INCLUDE_EXAMPLES=FALSE'',
      ''-D'', ''LLVM_INCLUDE_RUNTIMES=FALSE'',
      ''-D'', ''LLVM_INCLUDE_TESTS=FALSE'',
      ''-D'', ''LLVM_INCLUDE_TOOLS=TRUE'',
      ''-D'', ''LLVM_INCLUDE_UTILS=FALSE'',
      ''-D'', ''CMAKE_INSTALL_PREFIX='' @ llvm_install_path w c]"

definition cmake_build :: "world \<Rightarrow> config \<Rightarrow> string list" where
  "cmake_build w c = [''cmake'', ''--build'', llvm_build_path w c]"

definition cmake_install :: "world \<Rightarrow> config \<Rightarrow> string list" where
  "cmake_install w c = [''cmake'', ''--install'', llvm_build_path w c]"

text \<open>\<^verbatim>\<open>subprocess.check_call\<close> raises when the command exits with a status other
  than 0; nothing around lines 122-128 catches it.\<close>

definition run_check_call :: "world \<Rightarrow> stage \<Rightarrow> string list \<Rightarrow> unit step" where
  "run_check_call w s argv =
     ([CheckCall s argv],
      case check_call w argv of Inl e \<Rightarrow> Inl (Uncaught e) | Inr _ \<Rightarrow> Inr ())"

definition cmake_stages :: "world \<Rightarrow> config \<Rightarrow> unit step" where
  "cmake_stages w c =
     then_step (run_check_call w Configure (cmake_gen w c)) (\<lambda>_.
     then_step (run_check_call w Build (cmake_build w c)) (\<lambda>_.
     run_check_call w Install (cmake_install w c)))"

definition bootstrap :: "world \<Rightarrow> config \<Rightarrow> unit step" where
  "bootstrap w c = then_step (checkout w) (\<lambda>_. cmake_stages w c)"

subsection \<open>Lines 34-128: everything before the \<^verbatim>\<open>try\<close>\<close>

definition prelude :: "args \<Rightarrow> world \<Rightarrow> config step" where
  "prelude a w =
     then_step ([PrintArgs a], Inr (setup_config a)) (\<lambda>c0.
     then_step (case setup_cuda a w c0 of (es, c) \<Rightarrow> (es, Inr c)) (\<lambda>c1.
     then_step (setup_host_compiler a w c1) (\<lambda>c2.
       if build_llvm a then then_step (bootstrap w c2) (\<lambda>_. ([], Inr c2))
       else ([], Inr c2))))"

subsection \<open>Lines 131-197: the two libraries\<close>

definition dll_ext :: "world \<Rightarrow> string" where
  "dll_ext w =
     (if sys_platform w = ''win32'' then ''dll''
      else if sys_platform w = ''darwin'' then ''dylib''
      else ''so'')"

definition libpath_directive :: "string \<Rightarrow> string" where
  \<open>libpath_directive libpath = ''/LIBPATH:"'' @ libpath @ ''"''\<close>

definition clang_target :: "args \<Rightarrow> world \<Rightarrow> config \<Rightarrow> string list \<Rightarrow> target" where
  "clang_target a w c ls =
     \<lparr>dll_path = path_join w (build_path w) (''bin/clang.'' @ dll_ext w),
      cpp_paths = [path_join w (build_path w) ''clang/clang.cpp''],
      cu_path = None,
      libs = Some ls,
      mode_kw = config_mode c,
      verify_fp_kw = config_verify_fp c,
      fast_math_kw = fast_math a,
      use_cache = False,
      quick_kw = None\<rparr>"

text \<open>The loop \<^verbatim>\<open>for (_, _, libs) in os.walk(libpath): break\<close> binds \<^verbatim>\<open>libs\<close> to the
  file names of the first triple; when \<^verbatim>\<open>os.walk\<close> yields nothing (the directory is
  missing), \<^verbatim>\<open>libs\<close> stays unbound and \<^verbatim>\<open>libs.append\<close> raises a \<^verbatim>\<open>NameError\<close>.\<close>

definition libs_unbound :: exn where
  "libs_unbound = Exn ''name 'libs' is not defined''"

definition libpath :: "world \<Rightarrow> config \<Rightarrow> string" where
  "libpath w c = path_join w (llvm_install_path w c) ''lib''"

definition build_clang :: "args \<Rightarrow> world \<Rightarrow> config \<Rightarrow> event list \<times> (exn + unit)" where
  "build_clang a w c =
     (case walk w (libpath w c) of
        [] \<Rightarrow> ([Walk (libpath w c)], Inl libs_unbound)
      | (root, dirs, files) # rest \<Rightarrow>
          (let t = clang_target a w c
                     (files @ [''Version.lib'', libpath_directive (libpath w c)])
           in ([Walk (libpath w c), BuildDll t], build_dll w t)))"

definition cpp_sources :: "string list" where
  "cpp_sources =
     [''native/warp.cpp'',
      ''native/crt.cpp'',
      ''native/cuda_util.cpp'',
      ''native/mesh.cpp'',
      ''native/hashgrid.cpp'',
      ''native/sort.cpp'',
      ''native/volume.cpp'',
      ''native/marching.cpp'',
      ''native/cutlass_gemm.cpp'']"

definition cuda_warning :: string where
  "cuda_warning = ''Warning: CUDA toolchain not found, building without CUDA support''"

definition warp_target :: "args \<Rightarrow> world \<Rightarrow> config \<Rightarrow> target" where
  "warp_target a w c =
     \<lparr>dll_path = path_join w (build_path w) (''bin/warp.'' @ dll_ext w),
      cpp_paths = map (path_join w (build_path w)) cpp_sources,
      cu_path = (if config_cuda_path c = None then None
                 else Some (path_join w (build_path w) ''native/warp.cu'')),
      libs = None,
      mode_kw = config_mode c,
      verify_fp_kw = config_verify_fp c,
      fast_math_kw = fast_math a,
      use_cache = False,
      quick_kw = Some (quick a)\<rparr>"

definition build_warp :: "args \<Rightarrow> world \<Rightarrow> config \<Rightarrow> event list \<times> (exn + unit)" where
  "build_warp a w c =
     (let t = warp_target a w c in
      if config_cuda_path c = None then ([Print cuda_warning, BuildDll t], build_dll w t)
      else ([BuildDll t], build_dll w t))"

text \<open>The body of the \<^verbatim>\<open>try\<close>: an exception of the first call skips the second.\<close>

definition try_body :: "args \<Rightarrow> world \<Rightarrow> config \<Rightarrow> event list \<times> (exn + unit)" where
  "try_body a w c =
     (if build_llvm a then
        (case build_clang a w c of
           (es, Inl e) \<Rightarrow> (es, Inl e)
         | (es, Inr _) \<Rightarrow> (case build_warp a w c of (es', r) \<Rightarrow> (es @ es', r)))
      else build_warp a w c)"

subsection \<open>The whole script\<close>

definition build_error :: "exn \<Rightarrow> string" where
  "build_error e = (case e of Exn m \<Rightarrow> ''Warp build error: '' @ m)"

definition run :: "args \<Rightarrow> world \<Rightarrow> event list \<times> outcome" where
  "run a w =
     (case prelude a w of
        (es, Inl out) \<Rightarrow> (es, out)
      | (es, Inr c) \<Rightarrow>
          (case try_body a w c of
             (es', Inl e) \<Rightarrow> (es @ es' @ [Print (build_error e)], SysExit 1)
           | (es', Inr _) \<Rightarrow> (es @ es', Finished)))"

subsection \<open>Reading a run\<close>

text \<open>The \<^verbatim>\<open>cmake\<close> stages a list of calls invoked, in order.\<close>

fun stages_of :: "event list \<Rightarrow> stage list" where
  "stages_of [] = []"
| "stages_of (CheckCall s argv # es) = s # stages_of es"
| "stages_of (e # es) = stages_of es"

text \<open>The stage that follows a stage, if any.\<close>

fun next_stage :: "stage \<Rightarrow> stage option" where
  "next_stage Configure = Some Build"
| "next_stage Build = Some Install"
| "next_stage Install = None"

text \<open>A printed line that starts like the message of the \<^verbatim>\<open>except\<close> block.\<close>

fun is_build_error :: "event \<Rightarrow> bool" where
  "is_build_error (Print m) = prefix ''Warp build error: '' m"
| "is_build_error e = False"

fun is_env_get :: "event \<Rightarrow> bool" where
  "is_env_get (EnvGet k) = True"
| "is_env_get e = False"

fun is_clone :: "event \<Rightarrow> bool" where
  "is_clone (CloneFrom u p b d) = True"
| "is_clone e = False"

text \<open>A call that starts a tool: host-compiler lookup, checkout, \<^verbatim>\<open>cmake\<close>, compile
  and link.\<close>

fun is_external :: "event \<Rightarrow> bool" where
  "is_external (SetMsvcCompiler m s) = True"
| "is_external FindHostCompiler = True"
| "is_external (CloneFrom u p b d) = True"
| "is_external (CheckCall s argv) = True"
| "is_external (BuildDll t) = True"
| "is_external e = False"

subsection \<open>Sample inputs\<close>

text \<open>The defaults of the parser, and a Linux machine without CUDA on which the LLVM
  checkout exists, its install directory holds two libraries and every tool succeeds.\<close>

definition release_args :: args where
  "release_args =
     \<lparr>msvc_path = None, sdk_path = None, cuda_path = None, mode = ''release'',
      verbose = True, verify_fp = False, fast_math = False, quick = False,
      build_llvm = False\<rparr>"

definition posix_world :: world where
  "posix_world =
     \<lparr>sys_platform = ''linux'', os_name = ''posix'', base_path = ''/src'',
      path_join = posix_join, capitalize = ascii_capitalize, environ = (\<lambda>k. None),
      set_msvc_compiler = (\<lambda>m s. Inr ()), find_host_compiler = Inr None,
      path_exists = (\<lambda>p. True), clone_from = (\<lambda>u p. Inr ()),
      open_repo = (\<lambda>p. Inr ()), check_call = (\<lambda>argv. Inr ()),
      walk = (\<lambda>p. [(p, [], [''clang.lib'', ''LLVMCore.lib''])]),
      build_dll = (\<lambda>t. Inr ())\<rparr>"

definition quick_args :: args where
  "quick_args = release_args\<lparr>quick := True\<rparr>"

definition llvm_args :: args where
  "llvm_args = release_args\<lparr>build_llvm := True\<rparr>"

definition fast_args :: args where
  "fast_args = release_args\<lparr>mode := ''fast'', build_llvm := True\<rparr>"

definition cuda_args :: args where
  "cuda_args = release_args\<lparr>cuda_path := Some ''/opt/cuda''\<rparr>"

text \<open>Windows without Visual Studio: \<^verbatim>\<open>find_host_compiler\<close> returns the empty string.\<close>

definition windows_world :: world where
  "windows_world =
     posix_world\<lparr>sys_platform := ''win32'', os_name := ''nt'',
                 find_host_compiler := Inr (Some [])\<rparr>"

text \<open>macOS with a CUDA toolkit announced in the environment.\<close>

definition darwin_world :: world where
  "darwin_world =
     posix_world\<lparr>sys_platform := ''darwin'', environ := (\<lambda>k. Some ''/usr/local/cuda'')\<rparr>"

definition tool_failure :: exn where
  "tool_failure = Exn ''Command returned non-zero exit status 1''"

definition fresh_world :: world where
  "fresh_world = posix_world\<lparr>path_exists := (\<lambda>p. False)\<rparr>"

definition clone_fails_world :: world where
  "clone_fails_world =
     posix_world\<lparr>path_exists := (\<lambda>p. False), clone_from := (\<lambda>u p. Inl tool_failure)\<rparr>"

definition configure_fails_world :: world where
  "configure_fails_world = posix_world\<lparr>check_call := (\<lambda>argv. Inl tool_failure)\<rparr>"

definition build_fails_world :: world where
  "build_fails_world =
     posix_world\<lparr>check_call :=
       (\<lambda>argv. if take 2 argv = [''cmake'', ''--build''] then Inl tool_failure else Inr ())\<rparr>"

definition compile_fails_world :: world where
  "compile_fails_world = posix_world\<lparr>build_dll := (\<lambda>t. Inl tool_failure)\<rparr>"

text \<open>The machine as a checkout that succeeded leaves it: \<^verbatim>\<open>Repo.clone_from\<close> has
  created its destination, so the path of the working copy exists; nothing else
  changes.\<close>

definition after_checkout :: "world \<Rightarrow> world" where
  "after_checkout w =
     w\<lparr>path_exists := (\<lambda>p. p = llvm_project_path w \<or> path_exists w p)\<rparr>"

section \<open>Properties\<close>

subsection \<open>The calls of each part of the script\<close>

lemmas run_defs =
  run_def prelude_def then_step_def setup_config_def setup_cuda_def find_cuda_def
  setup_host_compiler_def bootstrap_def checkout_def cmake_stages_def run_check_call_def
  try_body_def build_clang_def build_warp_def Let_def build_error_def

lemmas path_defs =
  build_path_def llvm_project_path_def llvm_install_path_def llvm_build_path_def llvm_path_def
  build_type_def libpath_def posix_join_def dll_ext_def upper_char_def lower_char_def ascii_lower_def
  ascii_upper_def

lemma fst_then_step:
  "fst (then_step m f) = (case snd m of Inl out \<Rightarrow> fst m | Inr v \<Rightarrow> fst m @ fst (f v))"
  by (simp add: then_step_def split: prod.splits sum.splits)

lemma snd_then_step:
  "snd (then_step m f) = (case snd m of Inl out \<Rightarrow> Inl out | Inr v \<Rightarrow> snd (f v))"
  by (simp add: then_step_def split: prod.splits sum.splits)

lemma setup_cuda_events: "e \<in> set (fst (setup_cuda a w c)) \<Longrightarrow> \<exists>k. e = EnvGet k"
  by (auto simp: setup_cuda_def find_cuda_def Let_def split: if_splits)

lemma setup_cuda_config:
  "config_mode (snd (setup_cuda a w c)) = config_mode c"
  "config_verify_fp (snd (setup_cuda a w c)) = config_verify_fp c"
  by (auto simp: setup_cuda_def find_cuda_def Let_def split: if_splits prod.splits)

lemma setup_host_compiler_events:
  "e \<in> set (fst (setup_host_compiler a w c)) \<Longrightarrow>
     e = SetMsvcCompiler (msvc_path a) (sdk_path a) \<or> e = FindHostCompiler \<or> e = Print msvc_error"
  by (auto simp: setup_host_compiler_def split: if_splits sum.splits)

lemma setup_host_compiler_config:
  "snd (setup_host_compiler a w c) = Inr c' \<Longrightarrow>
     config_mode c' = config_mode c \<and> config_verify_fp c' = config_verify_fp c
     \<and> config_cuda_path c' = config_cuda_path c"
  by (auto simp: setup_host_compiler_def split: if_splits sum.splits)

lemma setup_host_compiler_quiet:
  "snd (setup_host_compiler a w c) = Inr c' \<Longrightarrow> Print m \<notin> set (fst (setup_host_compiler a w c))"
  by (auto simp: setup_host_compiler_def split: if_splits sum.splits)

lemma checkout_events:
  "e \<in> set (fst (checkout w)) \<Longrightarrow>
     e = PathExists (llvm_project_path w) \<or> e = OpenRepo (llvm_project_path w)
     \<or> e = CloneFrom llvm_url (llvm_project_path w) ''llvmorg-15.0.7'' 1"
  by (auto simp: checkout_def Let_def split: if_splits sum.splits)

lemma fst_cmake_stages:
  "fst (cmake_stages w c) =
     CheckCall Configure (cmake_gen w c) #
       (case check_call w (cmake_gen w c) of
          Inl e \<Rightarrow> []
        | Inr u \<Rightarrow>
            CheckCall Build (cmake_build w c) #
              (case check_call w (cmake_build w c) of
                 Inl e \<Rightarrow> []
               | Inr u \<Rightarrow> [CheckCall Install (cmake_install w c)]))"
  by (simp add: cmake_stages_def fst_then_step snd_then_step run_check_call_def split: sum.splits)

lemma snd_cmake_stages:
  "snd (cmake_stages w c) =
     (case check_call w (cmake_gen w c) of
        Inl e \<Rightarrow> Inl (Uncaught e)
      | Inr u \<Rightarrow>
          (case check_call w (cmake_build w c) of
             Inl e \<Rightarrow> Inl (Uncaught e)
           | Inr u \<Rightarrow>
               (case check_call w (cmake_install w c) of
                  Inl e \<Rightarrow> Inl (Uncaught e)
                | Inr u \<Rightarrow> Inr ())))"
  by (simp add: cmake_stages_def snd_then_step run_check_call_def split: sum.splits)

lemma cmake_stages_events:
  "e \<in> set (fst (cmake_stages w c)) \<Longrightarrow>
     e = CheckCall Configure (cmake_gen w c) \<or> e = CheckCall Build (cmake_build w c)
     \<or> e = CheckCall Install (cmake_install w c)"
  by (auto simp: fst_cmake_stages split: sum.splits)

lemma fst_bootstrap:
  "fst (bootstrap w c) =
     (case snd (checkout w) of
        Inl out \<Rightarrow> fst (checkout w)
      | Inr u \<Rightarrow> fst (checkout w) @ fst (cmake_stages w c))"
  by (simp add: bootstrap_def fst_then_step)

lemma snd_bootstrap:
  "snd (bootstrap w c) =
     (case snd (checkout w) of Inl out \<Rightarrow> Inl out | Inr u \<Rightarrow> snd (cmake_stages w c))"
  by (simp add: bootstrap_def snd_then_step)

lemma bootstrap_events:
  "e \<in> set (fst (bootstrap w c)) \<Longrightarrow>
     e \<in> set (fst (checkout w)) \<or> e \<in> set (fst (cmake_stages w c))"
  by (auto simp: fst_bootstrap split: sum.splits)

lemma fst_prelude:
  "fst (prelude a w) =
     PrintArgs a # fst (setup_cuda a w (setup_config a)) @
       fst (setup_host_compiler a w (snd (setup_cuda a w (setup_config a)))) @
       (case snd (setup_host_compiler a w (snd (setup_cuda a w (setup_config a)))) of
          Inl out \<Rightarrow> []
        | Inr c \<Rightarrow> if build_llvm a then fst (bootstrap w c) else [])"
  by (simp add: prelude_def fst_then_step snd_then_step case_prod_beta split: sum.splits)

lemma snd_prelude:
  "snd (prelude a w) =
     (case snd (setup_host_compiler a w (snd (setup_cuda a w (setup_config a)))) of
        Inl out \<Rightarrow> Inl out
      | Inr c \<Rightarrow>
          if build_llvm a then (case snd (bootstrap w c) of Inl out \<Rightarrow> Inl out | Inr u \<Rightarrow> Inr c)
          else Inr c)"
  by (simp add: prelude_def fst_then_step snd_then_step case_prod_beta split: sum.splits)

lemma prelude_events:
  "e \<in> set (fst (prelude a w)) \<Longrightarrow>
     e = PrintArgs a \<or> (\<exists>k. e = EnvGet k) \<or> e = Print msvc_error
     \<or> e = SetMsvcCompiler (msvc_path a) (sdk_path a) \<or> e = FindHostCompiler
     \<or> (\<exists>c. e \<in> set (fst (bootstrap w c)))"
  by (auto simp: fst_prelude split: sum.splits if_splits
           dest!: setup_cuda_events setup_host_compiler_events)

lemma prelude_config:
  assumes "snd (prelude a w) = Inr c"
  shows "config_mode c = mode a" and "config_verify_fp c = verify_fp a"
    and "config_cuda_path c = config_cuda_path (snd (setup_cuda a w (setup_config a)))"
  using assms setup_host_compiler_config [of a w "snd (setup_cuda a w (setup_config a))" c]
  by (auto simp: snd_prelude setup_cuda_config setup_config_def split: sum.splits if_splits)

lemma prelude_no_build_dll: "BuildDll t \<notin> set (fst (prelude a w))"
  by (auto dest!: prelude_events bootstrap_events checkout_events cmake_stages_events)

lemma fst_run:
  "fst (run a w) =
     (case snd (prelude a w) of
        Inl out \<Rightarrow> fst (prelude a w)
      | Inr c \<Rightarrow>
          (case snd (try_body a w c) of
             Inl e \<Rightarrow> fst (prelude a w) @ fst (try_body a w c) @ [Print (build_error e)]
           | Inr u \<Rightarrow> fst (prelude a w) @ fst (try_body a w c)))"
  by (simp add: run_def split: prod.splits sum.splits)

lemma snd_run:
  "snd (run a w) =
     (case snd (prelude a w) of
        Inl out \<Rightarrow> out
      | Inr c \<Rightarrow> (case snd (try_body a w c) of Inl e \<Rightarrow> SysExit 1 | Inr u \<Rightarrow> Finished))"
  by (simp add: run_def split: prod.splits sum.splits)

lemma try_body_events:
  "e \<in> set (fst (try_body a w c)) \<Longrightarrow>
     e = Print cuda_warning \<or> e = BuildDll (warp_target a w c)
     \<or> e = Walk (libpath w c)
     \<or> (\<exists>ls. build_llvm a \<and> e = BuildDll (clang_target a w c ls))"
  by (auto simp: try_body_def build_clang_def build_warp_def Let_def
           split: if_splits list.splits prod.splits sum.splits)

lemma run_build_dll:
  assumes "BuildDll t \<in> set (fst (run a w))"
  obtains c where "snd (prelude a w) = Inr c" and "BuildDll t \<in> set (fst (try_body a w c))"
  using assms prelude_no_build_dll [of t a w]
  by (auto simp: fst_run split: sum.splits)

subsection \<open>A complete run with the bundled toolchain\<close>

lemma llvm_run_events:
  "fst (run llvm_args posix_world) =
     [PrintArgs llvm_args, EnvGet ''CUDA_HOME'', EnvGet ''CUDA_PATH'',
      PathExists ''/src/external/llvm-project'', OpenRepo ''/src/external/llvm-project'',
      CheckCall Configure (cmake_gen posix_world (setup_config llvm_args)),
      CheckCall Build (cmake_build posix_world (setup_config llvm_args)),
      CheckCall Install (cmake_install posix_world (setup_config llvm_args)),
      Walk ''/src/external/llvm-project/out/install/Release/lib'',
      BuildDll (clang_target llvm_args posix_world (setup_config llvm_args)
         [''clang.lib'', ''LLVMCore.lib'', ''Version.lib'',
          libpath_directive ''/src/external/llvm-project/out/install/Release/lib'']),
      Print cuda_warning,
      BuildDll (warp_target llvm_args posix_world (setup_config llvm_args))]"
  by (simp add: run_defs path_defs llvm_args_def release_args_def posix_world_def)

subsection \<open>The source list of \<^verbatim>\<open>warp.dll\<close> and the \<^verbatim>\<open>--quick\<close> flag\<close>

text \<open>
  With \<^verbatim>\<open>--quick\<close> on a Linux machine without CUDA the script makes one call of
  \<^verbatim>\<open>build_dll\<close>, and \<^verbatim>\<open>native/cutlass_gemm.cpp\<close> is the last of the nine sources
  it passes: \<^verbatim>\<open>cpp_sources\<close> is a literal that no branch looks at.
\<close>

theorem quick_keeps_cutlass_counterexample:
  "quick quick_args \<and>
   run quick_args posix_world =
     ([PrintArgs quick_args, EnvGet ''CUDA_HOME'', EnvGet ''CUDA_PATH'', Print cuda_warning,
       BuildDll
        \<lparr>dll_path = ''/src/warp/bin/warp.so'',
         cpp_paths =
           [''/src/warp/native/warp.cpp'', ''/src/warp/native/crt.cpp'',
            ''/src/warp/native/cuda_util.cpp'', ''/src/warp/native/mesh.cpp'',
            ''/src/warp/native/hashgrid.cpp'', ''/src/warp/native/sort.cpp'',
            ''/src/warp/native/volume.cpp'', ''/src/warp/native/marching.cpp'',
            ''/src/warp/native/cutlass_gemm.cpp''],
         cu_path = None, libs = None, mode_kw = ''release'', verify_fp_kw = False,
         fast_math_kw = False, use_cache = False, quick_kw = Some True\<rparr>],
      Finished)"
  by (simp add: run_defs path_defs warp_target_def cpp_sources_def quick_args_def
        release_args_def posix_world_def)

text \<open>
  Claim C1, as the script has it: whatever \<^verbatim>\<open>--quick\<close> says, the arguments of the
  call of \<^verbatim>\<open>build_dll\<close> for \<^verbatim>\<open>warp.dll\<close> hold the nine sources of
  \<^verbatim>\<open>cpp_sources\<close> joined to the build path, with \<^verbatim>\<open>native/cutlass_gemm.cpp\<close> last,
  and the flag itself, unchanged, as \<^verbatim>\<open>quick\<close>. The run makes that call once the
  steps before the \<^verbatim>\<open>try\<close> are through and, with \<^verbatim>\<open>--build_llvm\<close>,
  \<^verbatim>\<open>clang.dll\<close> is built; and a run calls \<^verbatim>\<open>build_dll\<close> with these arguments or
  with those for \<^verbatim>\<open>clang.dll\<close>, never with others.
\<close>

theorem cutlass_source_always_listed:
  "cpp_paths (warp_target a w c) =
     map (path_join w (build_path w))
       [''native/warp.cpp'', ''native/crt.cpp'', ''native/cuda_util.cpp'', ''native/mesh.cpp'',
        ''native/hashgrid.cpp'', ''native/sort.cpp'', ''native/volume.cpp'',
        ''native/marching.cpp'', ''native/cutlass_gemm.cpp'']
   \<and> last (cpp_paths (warp_target a w c))
       = path_join w (build_path w) ''native/cutlass_gemm.cpp''
   \<and> quick_kw (warp_target a w c) = Some (quick a)
   \<and> (snd (prelude a w) = Inr c \<and> (build_llvm a \<longrightarrow> snd (build_clang a w c) = Inr ()) \<longrightarrow>
         BuildDll (warp_target a w c) \<in> set (fst (run a w)))
   \<and> (\<forall>t. BuildDll t \<in> set (fst (run a w)) \<longrightarrow>
         (\<exists>c'. snd (prelude a w) = Inr c'
            \<and> (t = warp_target a w c' \<or> (\<exists>ls. build_llvm a \<and> t = clang_target a w c' ls))))"
proof -
  have 1: "cpp_paths (warp_target a w c) =
     map (path_join w (build_path w))
       [''native/warp.cpp'', ''native/crt.cpp'', ''native/cuda_util.cpp'', ''native/mesh.cpp'',
        ''native/hashgrid.cpp'', ''native/sort.cpp'', ''native/volume.cpp'',
        ''native/marching.cpp'', ''native/cutlass_gemm.cpp'']"
    by (simp add: warp_target_def cpp_sources_def)
  have 2: "last (cpp_paths (warp_target a w c))
       = path_join w (build_path w) ''native/cutlass_gemm.cpp''"
    by (simp add: 1)
  have 3: "quick_kw (warp_target a w c) = Some (quick a)"
    by (simp add: warp_target_def)
  have 4: "BuildDll (warp_target a w c) \<in> set (fst (run a w))"
    if "snd (prelude a w) = Inr c" and "build_llvm a \<longrightarrow> snd (build_clang a w c) = Inr ()"
  proof -
    have "BuildDll (warp_target a w c) \<in> set (fst (build_warp a w c))"
      by (simp add: build_warp_def Let_def)
    with that(2) have "BuildDll (warp_target a w c) \<in> set (fst (try_body a w c))"
      by (auto simp: try_body_def split: prod.splits sum.splits)
    with that(1) show ?thesis
      by (simp add: fst_run split: sum.splits)
  qed
  have 5: "\<exists>c'. snd (prelude a w) = Inr c'
            \<and> (t = warp_target a w c' \<or> (\<exists>ls. build_llvm a \<and> t = clang_target a w c' ls))"
    if "BuildDll t \<in> set (fst (run a w))" for t
  proof -
    from that obtain c' where "snd (prelude a w) = Inr c'"
      and "BuildDll t \<in> set (fst (try_body a w c'))"
      by (rule run_build_dll)
    then show ?thesis
      by (auto dest!: try_body_events)
  qed
  from 1 2 3 4 5 show ?thesis
    by blast
qed

lemma quick_prelude:
  "prelude quick_args posix_world =
     ([PrintArgs quick_args, EnvGet ''CUDA_HOME'', EnvGet ''CUDA_PATH''],
      Inr (setup_config quick_args))"
  by (simp add: run_defs quick_args_def release_args_def posix_world_def)

theorem cutlass_source_always_listed_witness:
  "quick quick_args
   \<and> snd (prelude quick_args posix_world) = Inr (setup_config quick_args)
   \<and> \<not> build_llvm quick_args
   \<and> BuildDll (warp_target quick_args posix_world (setup_config quick_args))
       \<in> set (fst (run quick_args posix_world))
   \<and> quick_kw (warp_target quick_args posix_world (setup_config quick_args)) = Some True
   \<and> last (cpp_paths (warp_target quick_args posix_world (setup_config quick_args)))
       = ''/src/warp/native/cutlass_gemm.cpp''"
proof -
  have pre: "snd (prelude quick_args posix_world) = Inr (setup_config quick_args)"
    by (simp add: quick_prelude)
  have plain: "\<not> build_llvm quick_args"
    and flag: "quick quick_args"
    by (simp_all add: quick_args_def release_args_def)
  have cutlass: "path_join posix_world (build_path posix_world) ''native/cutlass_gemm.cpp''
      = ''/src/warp/native/cutlass_gemm.cpp''"
    by (simp add: path_defs posix_world_def)
  from cutlass_source_always_listed [of quick_args posix_world "setup_config quick_args"]
    pre plain
  have "BuildDll (warp_target quick_args posix_world (setup_config quick_args))
       \<in> set (fst (run quick_args posix_world))
     \<and> quick_kw (warp_target quick_args posix_world (setup_config quick_args))
         = Some (quick quick_args)
     \<and> last (cpp_paths (warp_target quick_args posix_world (setup_config quick_args)))
         = path_join posix_world (build_path posix_world) ''native/cutlass_gemm.cpp''"
    by blast
  with pre plain flag show ?thesis
    by (simp add: cutlass)
qed

subsection \<open>Caching\<close>

text \<open>
  Claim C10: every call of \<^verbatim>\<open>build_dll\<close> a run makes, for \<^verbatim>\<open>clang.dll\<close> as for
  \<^verbatim>\<open>warp.dll\<close>, passes \<^verbatim>\<open>use_cache=False\<close>, for all arguments and on every
  machine: no option of the command line reaches that keyword.
\<close>

theorem no_caching: "BuildDll t \<in> set (fst (run a w)) \<Longrightarrow> \<not> use_cache t"
  by (erule run_build_dll) (auto dest!: try_body_events simp: warp_target_def clang_target_def)

theorem no_caching_witness:
  "BuildDll (clang_target llvm_args posix_world (setup_config llvm_args)
      [''clang.lib'', ''LLVMCore.lib'', ''Version.lib'',
       libpath_directive ''/src/external/llvm-project/out/install/Release/lib''])
     \<in> set (fst (run llvm_args posix_world))
   \<and> BuildDll (warp_target llvm_args posix_world (setup_config llvm_args))
     \<in> set (fst (run llvm_args posix_world))
   \<and> \<not> use_cache (clang_target llvm_args posix_world (setup_config llvm_args)
      [''clang.lib'', ''LLVMCore.lib'', ''Version.lib'',
       libpath_directive ''/src/external/llvm-project/out/install/Release/lib''])
   \<and> \<not> use_cache (warp_target llvm_args posix_world (setup_config llvm_args))"
proof -
  have aux: "BuildDll (clang_target llvm_args posix_world (setup_config llvm_args)
      [''clang.lib'', ''LLVMCore.lib'', ''Version.lib'',
       libpath_directive ''/src/external/llvm-project/out/install/Release/lib''])
     \<in> set (fst (run llvm_args posix_world))"
    by (simp add: llvm_run_events)
  have primary: "BuildDll (warp_target llvm_args posix_world (setup_config llvm_args))
     \<in> set (fst (run llvm_args posix_world))"
    by (simp add: llvm_run_events)
  from no_caching [OF aux] no_caching [OF primary] aux primary show ?thesis
    by simp
qed

lemma stages_of_append: "stages_of (xs @ ys) = stages_of xs @ stages_of ys"
  by (induction xs rule: stages_of.induct) auto

lemma stages_of_none: "(\<And>s argv. CheckCall s argv \<notin> set es) \<Longrightarrow> stages_of es = []"
  by (induction es rule: stages_of.induct) auto

lemma cmake_argv_distinct:
  "cmake_gen w c \<noteq> cmake_build w c" "cmake_gen w c \<noteq> cmake_install w c"
  "cmake_build w c \<noteq> cmake_install w c"
  by (simp_all add: cmake_gen_def cmake_build_def cmake_install_def)

lemma setup_cuda_stages: "stages_of (fst (setup_cuda a w c)) = []"
  by (rule stages_of_none) (auto dest: setup_cuda_events)

lemma setup_host_compiler_stages: "stages_of (fst (setup_host_compiler a w c)) = []"
  by (rule stages_of_none) (auto dest: setup_host_compiler_events)

lemma checkout_stages: "stages_of (fst (checkout w)) = []"
  by (rule stages_of_none) (auto dest: checkout_events)

lemma try_body_stages: "stages_of (fst (try_body a w c)) = []"
  by (rule stages_of_none) (auto dest: try_body_events)

text \<open>The four ways the three stages can go.\<close>

lemma cmake_stages_cases:
  obtains
    (configure_fails) e where "check_call w (cmake_gen w c) = Inl e"
      and "cmake_stages w c = ([CheckCall Configure (cmake_gen w c)], Inl (Uncaught e))"
  | (build_fails) e where "check_call w (cmake_gen w c) = Inr ()"
      and "check_call w (cmake_build w c) = Inl e"
      and "cmake_stages w c =
            ([CheckCall Configure (cmake_gen w c), CheckCall Build (cmake_build w c)],
             Inl (Uncaught e))"
  | (install_fails) e where "check_call w (cmake_gen w c) = Inr ()"
      and "check_call w (cmake_build w c) = Inr ()"
      and "check_call w (cmake_install w c) = Inl e"
      and "cmake_stages w c =
            ([CheckCall Configure (cmake_gen w c), CheckCall Build (cmake_build w c),
              CheckCall Install (cmake_install w c)], Inl (Uncaught e))"
  | (all_succeed) "check_call w (cmake_gen w c) = Inr ()"
      and "check_call w (cmake_build w c) = Inr ()"
      and "check_call w (cmake_install w c) = Inr ()"
      and "cmake_stages w c =
            ([CheckCall Configure (cmake_gen w c), CheckCall Build (cmake_build w c),
              CheckCall Install (cmake_install w c)], Inr ())"
proof (cases "check_call w (cmake_gen w c)")
  case (Inl e)
  then have "cmake_stages w c = ([CheckCall Configure (cmake_gen w c)], Inl (Uncaught e))"
    by (simp add: prod_eq_iff fst_cmake_stages snd_cmake_stages)
  with Inl show ?thesis by (rule configure_fails)
next
  case gen: (Inr u)
  show ?thesis
  proof (cases "check_call w (cmake_build w c)")
    case (Inl e)
    with gen have "cmake_stages w c =
        ([CheckCall Configure (cmake_gen w c), CheckCall Build (cmake_build w c)],
         Inl (Uncaught e))"
      by (simp add: prod_eq_iff fst_cmake_stages snd_cmake_stages)
    with gen Inl show ?thesis by (auto intro: build_fails)
  next
    case build: (Inr u')
    show ?thesis
    proof (cases "check_call w (cmake_install w c)")
      case (Inl e)
      with gen build have "cmake_stages w c =
          ([CheckCall Configure (cmake_gen w c), CheckCall Build (cmake_build w c),
            CheckCall Install (cmake_install w c)], Inl (Uncaught e))"
        by (simp add: prod_eq_iff fst_cmake_stages snd_cmake_stages)
      with gen build Inl show ?thesis by (auto intro: install_fails)
    next
      case (Inr u'')
      with gen build have "cmake_stages w c =
          ([CheckCall Configure (cmake_gen w c), CheckCall Build (cmake_build w c),
            CheckCall Install (cmake_install w c)], Inr ())"
        by (simp add: prod_eq_iff fst_cmake_stages snd_cmake_stages)
      with gen build Inr show ?thesis by (auto intro: all_succeed)
    qed
  qed
qed

lemma no_check_call_parts:
  "CheckCall s argv \<notin> set (fst (setup_cuda a w c))"
  "CheckCall s argv \<notin> set (fst (setup_host_compiler a w c))"
  "CheckCall s argv \<notin> set (fst (checkout w))"
  "CheckCall s argv \<notin> set (fst (try_body a w c))"
  by (auto dest: setup_cuda_events setup_host_compiler_events checkout_events try_body_events)

text \<open>Where the stages of a run come from: either the run has none, or they are the
  stages of the one bootstrap it made, and a bootstrap that ends the process ends the run.\<close>

lemma run_stages:
  obtains
    (no_stage) "stages_of (fst (run a w)) = []"
      and "\<And>s argv. CheckCall s argv \<notin> set (fst (run a w))"
  | (stages) c where "build_llvm a"
      and "stages_of (fst (run a w)) = stages_of (fst (cmake_stages w c))"
      and "\<And>s argv. CheckCall s argv \<in> set (fst (run a w)) \<longleftrightarrow>
              CheckCall s argv \<in> set (fst (cmake_stages w c))"
      and "\<And>out. snd (cmake_stages w c) = Inl out \<Longrightarrow> snd (run a w) = out"
      and "\<And>out. snd (cmake_stages w c) = Inl out \<Longrightarrow>
              \<exists>es. fst (run a w) = es @ fst (cmake_stages w c)"
      and "config_mode c = mode a"
proof (cases "\<exists>c. snd (setup_host_compiler a w (snd (setup_cuda a w (setup_config a)))) = Inr c
                  \<and> build_llvm a \<and> snd (checkout w) = Inr ()")
  case False
  then have none: "CheckCall s argv \<notin> set (fst (run a w))" for s argv
    by (auto simp: fst_run fst_prelude snd_prelude fst_bootstrap snd_bootstrap no_check_call_parts
             split: sum.splits if_splits)
  then have "stages_of (fst (run a w)) = []"
    by (rule stages_of_none)
  then show ?thesis using none by (rule no_stage)
next
  case True
  then obtain c where hc: "snd (setup_host_compiler a w (snd (setup_cuda a w (setup_config a)))) = Inr c"
    and llvm: "build_llvm a" and co: "snd (checkout w) = Inr ()"
    by blast
  have 1: "stages_of (fst (run a w)) = stages_of (fst (cmake_stages w c))"
    using hc llvm co
    by (simp add: fst_run fst_prelude snd_prelude fst_bootstrap snd_bootstrap stages_of_append
          setup_cuda_stages setup_host_compiler_stages checkout_stages try_body_stages
        split: sum.splits)
  have 2: "CheckCall s argv \<in> set (fst (run a w)) \<longleftrightarrow>
           CheckCall s argv \<in> set (fst (cmake_stages w c))" for s argv
    using hc llvm co
    by (auto simp: fst_run fst_prelude snd_prelude fst_bootstrap snd_bootstrap no_check_call_parts
        split: sum.splits)
  have 3: "snd (run a w) = out" if "snd (cmake_stages w c) = Inl out" for out
    using hc llvm co that
    by (simp add: snd_run snd_prelude snd_bootstrap)
  have 4: "\<exists>es. fst (run a w) = es @ fst (cmake_stages w c)"
    if "snd (cmake_stages w c) = Inl out" for out
    using hc llvm co that
    by (simp add: fst_run fst_prelude snd_prelude fst_bootstrap snd_bootstrap)
  have 5: "config_mode c = mode a"
    using setup_host_compiler_config [OF hc] by (simp add: setup_cuda_config setup_config_def)
  from llvm 1 2 3 4 5 show ?thesis by (rule stages)
qed

subsection \<open>The order of the \<^verbatim>\<open>cmake\<close> stages\<close>

lemma stages_of_cmake_stages:
  "stages_of (fst (cmake_stages w c)) =
     (case check_call w (cmake_gen w c) of
        Inl e \<Rightarrow> [Configure]
      | Inr u \<Rightarrow>
          (case check_call w (cmake_build w c) of
             Inl e \<Rightarrow> [Configure, Build]
           | Inr u \<Rightarrow> [Configure, Build, Install]))"
  by (simp add: fst_cmake_stages split: sum.splits)

lemma run_reaches_stages:
  assumes "build_llvm a"
    and "snd (setup_host_compiler a w (snd (setup_cuda a w (setup_config a)))) = Inr c"
    and "snd (checkout w) = Inr ()"
  shows "stages_of (fst (run a w)) = stages_of (fst (cmake_stages w c))"
    and "CheckCall Configure (cmake_gen w c) \<in> set (fst (run a w))"
  using assms
  by (simp_all add: fst_run fst_prelude snd_prelude fst_bootstrap snd_bootstrap stages_of_append
        setup_cuda_stages setup_host_compiler_stages checkout_stages try_body_stages
        fst_cmake_stages
      split: sum.splits)

text \<open>
  Claim C5: a bootstrap whose checkout step succeeded invokes configure; it invokes build
  after it exactly when configure succeeded, and install after that exactly when build
  succeeded, and nothing else. A run with \<^verbatim>\<open>--build_llvm\<close> that got past the host
  compiler and the checkout invokes the stages of that bootstrap, configure first. In
  every run the stages that were invoked are an initial part of configure, build,
  install, in that order. A stage whose command fails is the last call the run makes,
  and its exception ends the process, so no later stage follows a failed one (install
  is not invoked when build fails); a stage whose command succeeds is followed by the
  next stage.
\<close>

theorem cmake_stage_order:
  "(snd (checkout w) = Inr () \<longrightarrow>
      stages_of (fst (bootstrap w c)) =
        (case check_call w (cmake_gen w c) of
           Inl e \<Rightarrow> [Configure]
         | Inr u \<Rightarrow>
             (case check_call w (cmake_build w c) of
                Inl e \<Rightarrow> [Configure, Build]
              | Inr u \<Rightarrow> [Configure, Build, Install])))
   \<and> (build_llvm a
        \<and> snd (setup_host_compiler a w (snd (setup_cuda a w (setup_config a)))) = Inr c
        \<and> snd (checkout w) = Inr () \<longrightarrow>
      CheckCall Configure (cmake_gen w c) \<in> set (fst (run a w))
      \<and> stages_of (fst (run a w)) =
        (case check_call w (cmake_gen w c) of
           Inl e \<Rightarrow> [Configure]
         | Inr u \<Rightarrow>
             (case check_call w (cmake_build w c) of
                Inl e \<Rightarrow> [Configure, Build]
              | Inr u \<Rightarrow> [Configure, Build, Install])))
   \<and> prefix (stages_of (fst (run a w))) [Configure, Build, Install]
   \<and> (\<forall>s argv e. CheckCall s argv \<in> set (fst (run a w)) \<and> check_call w argv = Inl e \<longrightarrow>
         last (stages_of (fst (run a w))) = s \<and> last (fst (run a w)) = CheckCall s argv
         \<and> snd (run a w) = Uncaught e)
   \<and> (\<forall>s argv s'. CheckCall s argv \<in> set (fst (run a w)) \<and> check_call w argv = Inr ()
         \<and> next_stage s = Some s' \<longrightarrow> s' \<in> set (stages_of (fst (run a w))))"
proof -
  have boot: "stages_of (fst (bootstrap w c)) =
        (case check_call w (cmake_gen w c) of
           Inl e \<Rightarrow> [Configure]
         | Inr u \<Rightarrow>
             (case check_call w (cmake_build w c) of
                Inl e \<Rightarrow> [Configure, Build]
              | Inr u \<Rightarrow> [Configure, Build, Install]))"
    if "snd (checkout w) = Inr ()"
    using that
    by (simp add: fst_bootstrap stages_of_append checkout_stages stages_of_cmake_stages)
  have reached: "CheckCall Configure (cmake_gen w c) \<in> set (fst (run a w))
      \<and> stages_of (fst (run a w)) =
        (case check_call w (cmake_gen w c) of
           Inl e \<Rightarrow> [Configure]
         | Inr u \<Rightarrow>
             (case check_call w (cmake_build w c) of
                Inl e \<Rightarrow> [Configure, Build]
              | Inr u \<Rightarrow> [Configure, Build, Install]))"
    if "build_llvm a"
      and "snd (setup_host_compiler a w (snd (setup_cuda a w (setup_config a)))) = Inr c"
      and "snd (checkout w) = Inr ()"
    using run_reaches_stages [OF that] by (simp add: stages_of_cmake_stages)
  have order: "prefix (stages_of (fst (run a w))) [Configure, Build, Install]
   \<and> (\<forall>s argv e. CheckCall s argv \<in> set (fst (run a w)) \<and> check_call w argv = Inl e \<longrightarrow>
         last (stages_of (fst (run a w))) = s \<and> last (fst (run a w)) = CheckCall s argv
         \<and> snd (run a w) = Uncaught e)
   \<and> (\<forall>s argv s'. CheckCall s argv \<in> set (fst (run a w)) \<and> check_call w argv = Inr ()
         \<and> next_stage s = Some s' \<longrightarrow> s' \<in> set (stages_of (fst (run a w))))"
  proof (cases rule: run_stages [of a w])
    case no_stage
    then show ?thesis by simp
  next
    case (stages c)
    show ?thesis
    proof (cases rule: cmake_stages_cases [of w c])
      case (configure_fails e)
      with stages(2-3) stages(4-5) [of "Uncaught e"] show ?thesis
        by (auto simp: cmake_argv_distinct)
    next
      case (build_fails e)
      with stages(2-3) stages(4-5) [of "Uncaught e"] show ?thesis
        using cmake_argv_distinct [of w c] by auto
    next
      case (install_fails e)
      with stages(2-3) stages(4-5) [of "Uncaught e"] show ?thesis
        using cmake_argv_distinct [of w c] by auto
    next
      case all_succeed
      with stages(2-3) show ?thesis
        using cmake_argv_distinct [of w c] by auto
    qed
  qed
  from boot reached order show ?thesis
    by blast
qed

lemma build_fails_run:
  "run llvm_args build_fails_world =
     ([PrintArgs llvm_args, EnvGet ''CUDA_HOME'', EnvGet ''CUDA_PATH'',
       PathExists ''/src/external/llvm-project'', OpenRepo ''/src/external/llvm-project'',
       CheckCall Configure (cmake_gen build_fails_world (setup_config llvm_args)),
       CheckCall Build (cmake_build build_fails_world (setup_config llvm_args))],
      Uncaught tool_failure)"
  by (simp add: run_defs path_defs cmake_gen_def cmake_build_def llvm_args_def release_args_def
        build_fails_world_def posix_world_def)

theorem cmake_stage_order_witness:
  "build_llvm llvm_args
   \<and> snd (setup_host_compiler llvm_args build_fails_world
        (snd (setup_cuda llvm_args build_fails_world (setup_config llvm_args))))
       = Inr (setup_config llvm_args)
   \<and> snd (checkout build_fails_world) = Inr ()
   \<and> stages_of (fst (bootstrap build_fails_world (setup_config llvm_args)))
       = [Configure, Build]
   \<and> stages_of (fst (run llvm_args build_fails_world)) = [Configure, Build]
   \<and> check_call build_fails_world (cmake_gen build_fails_world (setup_config llvm_args)) = Inr ()
   \<and> check_call build_fails_world (cmake_build build_fails_world (setup_config llvm_args))
       = Inl tool_failure
   \<and> last (fst (run llvm_args build_fails_world))
       = CheckCall Build (cmake_build build_fails_world (setup_config llvm_args))
   \<and> snd (run llvm_args build_fails_world) = Uncaught tool_failure
   \<and> Build \<in> set (stages_of (fst (run llvm_args build_fails_world)))"
proof -
  have llvm: "build_llvm llvm_args"
    by (simp add: llvm_args_def)
  have host: "snd (setup_host_compiler llvm_args build_fails_world
        (snd (setup_cuda llvm_args build_fails_world (setup_config llvm_args))))
       = Inr (setup_config llvm_args)"
    by (simp add: setup_host_compiler_def setup_cuda_def find_cuda_def setup_config_def
          llvm_args_def release_args_def build_fails_world_def posix_world_def)
  have co: "snd (checkout build_fails_world) = Inr ()"
    by (simp add: checkout_def Let_def build_fails_world_def posix_world_def)
  have configure: "CheckCall Configure (cmake_gen build_fails_world (setup_config llvm_args))
      \<in> set (fst (run llvm_args build_fails_world))"
    and build: "CheckCall Build (cmake_build build_fails_world (setup_config llvm_args))
      \<in> set (fst (run llvm_args build_fails_world))"
    by (simp_all add: build_fails_run)
  have ok: "check_call build_fails_world (cmake_gen build_fails_world (setup_config llvm_args))
      = Inr ()"
    and failed: "check_call build_fails_world
      (cmake_build build_fails_world (setup_config llvm_args)) = Inl tool_failure"
    by (simp_all add: build_fails_world_def posix_world_def cmake_gen_def cmake_build_def)
  have step: "next_stage Configure = Some Build"
    by simp
  note order = cmake_stage_order [of build_fails_world "setup_config llvm_args" llvm_args]
  from order co ok failed
  have 1: "stages_of (fst (bootstrap build_fails_world (setup_config llvm_args)))
       = [Configure, Build]"
    by simp
  from order llvm host co ok failed
  have 2: "stages_of (fst (run llvm_args build_fails_world)) = [Configure, Build]"
    by simp
  from order build failed
  have 3: "last (fst (run llvm_args build_fails_world))
       = CheckCall Build (cmake_build build_fails_world (setup_config llvm_args))
     \<and> snd (run llvm_args build_fails_world) = Uncaught tool_failure"
    by blast
  from order configure ok step
  have 4: "Build \<in> set (stages_of (fst (run llvm_args build_fails_world)))"
    by blast
  from 1 2 3 4
  have "stages_of (fst (bootstrap build_fails_world (setup_config llvm_args)))
       = [Configure, Build]
     \<and> stages_of (fst (run llvm_args build_fails_world)) = [Configure, Build]
     \<and> last (fst (run llvm_args build_fails_world))
       = CheckCall Build (cmake_build build_fails_world (setup_config llvm_args))
     \<and> snd (run llvm_args build_fails_world) = Uncaught tool_failure
     \<and> Build \<in> set (stages_of (fst (run llvm_args build_fails_world)))"
    by blast
  with llvm host co ok failed show ?thesis
    by simp
qed

subsection \<open>CUDA discovery on macOS\<close>

text \<open>
  Claim C9: when \<^verbatim>\<open>sys.platform\<close> is \<^verbatim>\<open>darwin\<close>, the CUDA path is set to
  \<^verbatim>\<open>None\<close> without a single call: the result is the same for every \<^verbatim>\<open>--cuda_path\<close>
  and every environment, the run never reads an environment variable, and every
  library is built with \<^verbatim>\<open>cu_path=None\<close>.
\<close>

theorem darwin_never_finds_cuda:
  assumes "sys_platform w = ''darwin''"
  shows "setup_cuda a w c = ([], c\<lparr>config_cuda_path := None\<rparr>)
         \<and> setup_cuda (a\<lparr>cuda_path := p\<rparr>) (w\<lparr>environ := env\<rparr>) c = setup_cuda a w c
         \<and> filter is_env_get (fst (run a w)) = []
         \<and> (\<forall>t. BuildDll t \<in> set (fst (run a w)) \<longrightarrow> cu_path t = None)"
proof -
  have 1: "setup_cuda a w c = ([], c\<lparr>config_cuda_path := None\<rparr>)" for a c
    using assms by (simp add: setup_cuda_def)
  have 2: "setup_cuda (a\<lparr>cuda_path := p\<rparr>) (w\<lparr>environ := env\<rparr>) c = setup_cuda a w c"
    using assms by (simp add: setup_cuda_def)
  have quiet: "\<not> is_env_get e" if "e \<in> set (fst (run a w))" for e
    using that
    by (auto simp: fst_run fst_prelude 1 split: sum.splits if_splits
             dest!: setup_host_compiler_events bootstrap_events checkout_events
                    cmake_stages_events try_body_events)
  have 3: "filter is_env_get (fst (run a w)) = []"
    by (auto simp: filter_empty_conv quiet)
  have 4: "cu_path t = None" if "BuildDll t \<in> set (fst (run a w))" for t
  proof -
    from that obtain c' where pre: "snd (prelude a w) = Inr c'"
      and t: "BuildDll t \<in> set (fst (try_body a w c'))"
      by (rule run_build_dll)
    from pre have "config_cuda_path c' = None"
      by (simp add: prelude_config(3) 1)
    with t show ?thesis
      by (auto dest!: try_body_events simp: warp_target_def clang_target_def)
  qed
  from 1 2 3 4 show ?thesis by blast
qed

lemma darwin_run:
  "run cuda_args darwin_world =
     ([PrintArgs cuda_args, Print cuda_warning,
       BuildDll (warp_target cuda_args darwin_world (setup_config cuda_args))],
      Finished)"
  by (simp add: run_defs cuda_args_def release_args_def darwin_world_def posix_world_def)

theorem darwin_never_finds_cuda_witness:
  "sys_platform darwin_world = ''darwin'' \<and> cuda_path cuda_args = Some ''/opt/cuda''
   \<and> environ darwin_world ''CUDA_HOME'' = Some ''/usr/local/cuda''
   \<and> setup_cuda cuda_args darwin_world (setup_config cuda_args) = ([], setup_config cuda_args)
   \<and> filter is_env_get (fst (run cuda_args darwin_world)) = []
   \<and> BuildDll (warp_target cuda_args darwin_world (setup_config cuda_args))
       \<in> set (fst (run cuda_args darwin_world))
   \<and> cu_path (warp_target cuda_args darwin_world (setup_config cuda_args)) = None"
proof -
  have darwin: "sys_platform darwin_world = ''darwin''"
    by (simp add: darwin_world_def)
  have submitted: "BuildDll (warp_target cuda_args darwin_world (setup_config cuda_args))
       \<in> set (fst (run cuda_args darwin_world))"
    by (simp add: darwin_run)
  from darwin_never_finds_cuda [OF darwin, of cuda_args "setup_config cuda_args"] submitted
  have "setup_cuda cuda_args darwin_world (setup_config cuda_args)
          = ([], (setup_config cuda_args)\<lparr>config_cuda_path := None\<rparr>)
        \<and> filter is_env_get (fst (run cuda_args darwin_world)) = []
        \<and> cu_path (warp_target cuda_args darwin_world (setup_config cuda_args)) = None"
    by blast
  with darwin submitted show ?thesis
    by (simp add: setup_config_def cuda_args_def darwin_world_def)
qed

subsection \<open>Windows without a host compiler\<close>

text \<open>
  Claim C4: on Windows (\<^verbatim>\<open>os.name\<close> is \<^verbatim>\<open>nt\<close>), when \<^verbatim>\<open>--sdk_path\<close> and
  \<^verbatim>\<open>--msvc_path\<close> are not both given and \<^verbatim>\<open>find_host_compiler\<close> returns nothing,
  the run prints the arguments, looks for CUDA, looks for the compiler, prints
  \<^verbatim>\<open>Warp build error: Could not find MSVC compiler\<close> and exits with status 1. The
  compiler lookup is the only tool it started: no checkout, no \<^verbatim>\<open>cmake\<close>, no
  \<^verbatim>\<open>build_dll\<close>. The message is the only error line and differs from the warning
  about a missing CUDA toolkit, which is not printed.
\<close>

theorem missing_host_compiler_exits:
  assumes "os_name w = ''nt''"
    and "\<not> (truthy (sdk_path a) \<and> truthy (msvc_path a))"
    and "find_host_compiler w = Inr hc" and "\<not> truthy hc"
  shows "run a w =
           (PrintArgs a # fst (setup_cuda a w (setup_config a)) @
              [FindHostCompiler, Print msvc_error], SysExit 1)
         \<and> exit_status (snd (run a w)) = 1
         \<and> filter is_external (fst (run a w)) = [FindHostCompiler]
         \<and> filter is_build_error (fst (run a w)) = [Print msvc_error]
         \<and> Print cuda_warning \<notin> set (fst (run a w))
         \<and> msvc_error \<noteq> cuda_warning"
proof -
  have host: "setup_host_compiler a w c = ([FindHostCompiler, Print msvc_error], Inl (SysExit 1))"
    for c
    using assms by (auto simp: setup_host_compiler_def)
  have 1: "run a w =
      (PrintArgs a # fst (setup_cuda a w (setup_config a)) @
         [FindHostCompiler, Print msvc_error], SysExit 1)"
    by (simp add: prod_eq_iff fst_run snd_run fst_prelude snd_prelude host)
  have env: "filter is_external (fst (setup_cuda a w c)) = []
      \<and> filter is_build_error (fst (setup_cuda a w c)) = []
      \<and> Print m \<notin> set (fst (setup_cuda a w c))" for c m
    by (auto simp: filter_empty_conv dest!: setup_cuda_events)
  have differ: "msvc_error \<noteq> cuda_warning"
    by (simp add: msvc_error_def cuda_warning_def)
  have "is_build_error (Print msvc_error)"
    by (simp add: msvc_error_def)
  with 1 env differ show ?thesis
    by simp
qed

lemma windows_run:
  "run release_args windows_world =
     ([PrintArgs release_args, EnvGet ''CUDA_HOME'', EnvGet ''CUDA_PATH'', FindHostCompiler,
       Print msvc_error], SysExit 1)"
  by (simp add: run_defs release_args_def windows_world_def posix_world_def)

theorem missing_host_compiler_exits_witness:
  "os_name windows_world = ''nt''
   \<and> \<not> (truthy (sdk_path release_args) \<and> truthy (msvc_path release_args))
   \<and> find_host_compiler windows_world = Inr (Some [])
   \<and> run release_args windows_world =
       ([PrintArgs release_args, EnvGet ''CUDA_HOME'', EnvGet ''CUDA_PATH'', FindHostCompiler,
         Print msvc_error], SysExit 1)
   \<and> filter is_external (fst (run release_args windows_world)) = [FindHostCompiler]"
proof -
  have nt: "os_name windows_world = ''nt''"
    and found: "find_host_compiler windows_world = Inr (Some [])"
    by (simp_all add: windows_world_def posix_world_def)
  have paths: "\<not> (truthy (sdk_path release_args) \<and> truthy (msvc_path release_args))"
    by (simp add: release_args_def)
  have empty: "\<not> truthy (Some [])"
    by simp
  from missing_host_compiler_exits [OF nt paths found empty] nt paths found show ?thesis
    by (simp add: setup_cuda_def find_cuda_def setup_config_def windows_world_def
          posix_world_def release_args_def)
qed

subsection \<open>Failures and the \<^verbatim>\<open>except\<close> block\<close>

lemma prelude_print:
  assumes "Print m \<in> set (fst (prelude a w))"
  shows "m = msvc_error" and "snd (prelude a w) = Inl (SysExit 1)"
proof -
  let ?h = "setup_host_compiler a w (snd (setup_cuda a w (setup_config a)))"
  from assms have "Print m \<in> set (fst ?h)"
    by (auto simp: fst_prelude split: sum.splits if_splits
             dest!: setup_cuda_events bootstrap_events checkout_events cmake_stages_events)
  then have "m = msvc_error \<and> snd ?h = Inl (SysExit 1)"
    by (auto simp: setup_host_compiler_def split: if_splits sum.splits)
  then show "m = msvc_error" and "snd (prelude a w) = Inl (SysExit 1)"
    by (simp_all add: snd_prelude)
qed

lemma prelude_no_build_error:
  assumes "snd (prelude a w) \<noteq> Inl (SysExit 1)"
  shows "filter is_build_error (fst (prelude a w)) = []"
proof -
  have "\<not> is_build_error e" if "e \<in> set (fst (prelude a w))" for e
  proof (cases e)
    case (Print m)
    with that assms prelude_print(2) [of m a w] show ?thesis by simp
  qed simp_all
  then show ?thesis
    by (auto simp: filter_empty_conv)
qed

lemma run_uncaught:
  assumes "snd (run a w) = Uncaught e"
  shows "snd (prelude a w) = Inl (Uncaught e)" and "fst (run a w) = fst (prelude a w)"
  using assms by (auto simp: snd_run fst_run split: sum.splits)

lemma cuda_warning_no_error: "\<not> prefix ''Warp build error: '' cuda_warning"
  by (simp add: cuda_warning_def)

lemma build_error_is_error: "prefix ''Warp build error: '' (build_error e)"
  by (cases e) (simp add: build_error_def)

lemma try_body_no_build_error: "filter is_build_error (fst (try_body a w c)) = []"
  by (auto simp: filter_empty_conv cuda_warning_no_error dest!: try_body_events)

lemma try_body_failure:
  assumes "BuildDll t \<in> set (fst (try_body a w c))" and "build_dll w t = Inl e"
  shows "snd (try_body a w c) = Inl e"
  using assms
  by (auto simp: try_body_def build_clang_def build_warp_def Let_def
           split: if_splits list.splits prod.splits sum.splits)

lemma run_clone_failure:
  assumes "CloneFrom u p b d \<in> set (fst (run a w))" and "clone_from w u p = Inl e"
  shows "snd (run a w) = Uncaught e"
proof -
  let ?h = "setup_host_compiler a w (snd (setup_cuda a w (setup_config a)))"
  from assms(1) have "CloneFrom u p b d \<in> set (fst (prelude a w))"
    by (auto simp: fst_run split: sum.splits dest!: try_body_events)
  then have "(\<exists>c. snd ?h = Inr c) \<and> build_llvm a
      \<and> CloneFrom u p b d \<in> set (fst (checkout w))"
    by (cases "snd ?h")
       (auto simp: fst_prelude split: if_splits
             dest!: setup_cuda_events setup_host_compiler_events bootstrap_events
                    cmake_stages_events)
  then obtain c where hc: "snd ?h = Inr c" and llvm: "build_llvm a"
    and co: "CloneFrom u p b d \<in> set (fst (checkout w))"
    by blast
  from co assms(2) have "snd (checkout w) = Inl (Uncaught e)"
    by (auto simp: checkout_def Let_def split: if_splits sum.splits)
  with hc llvm show ?thesis
    by (simp add: snd_run snd_prelude snd_bootstrap)
qed

text \<open>
  Claim C2, as the script has it. The \<^verbatim>\<open>try\<close> of line 141 encloses the two calls of
  \<^verbatim>\<open>build_dll\<close> and nothing else. When a call of \<^verbatim>\<open>build_dll\<close> raises, the
  \<^verbatim>\<open>except\<close> block prints \<^verbatim>\<open>Warp build error:\<close> followed by the message of the
  exception, as the last and only error line of the run, and exits with status 1. The
  checkout and the three \<^verbatim>\<open>cmake\<close> stages run before the \<^verbatim>\<open>try\<close>: when one of
  them raises, the exception is not caught, the process dies of it and no
  \<^verbatim>\<open>Warp build error\<close> line is printed.
\<close>

theorem failure_boundary:
  "(\<forall>t e. BuildDll t \<in> set (fst (run a w)) \<and> build_dll w t = Inl e \<longrightarrow>
      snd (run a w) = SysExit 1 \<and> last (fst (run a w)) = Print (build_error e)
      \<and> filter is_build_error (fst (run a w)) = [Print (build_error e)])
   \<and> (\<forall>s argv e. CheckCall s argv \<in> set (fst (run a w)) \<and> check_call w argv = Inl e \<longrightarrow>
      snd (run a w) = Uncaught e \<and> filter is_build_error (fst (run a w)) = [])
   \<and> (\<forall>u p b d e. CloneFrom u p b d \<in> set (fst (run a w)) \<and> clone_from w u p = Inl e \<longrightarrow>
      snd (run a w) = Uncaught e \<and> filter is_build_error (fst (run a w)) = [])"
proof -
  have escaped: "filter is_build_error (fst (run a w)) = []" if "snd (run a w) = Uncaught e" for e
    using run_uncaught [OF that] by (simp add: prelude_no_build_error)
  have compile: "snd (run a w) = SysExit 1 \<and> last (fst (run a w)) = Print (build_error e)
      \<and> filter is_build_error (fst (run a w)) = [Print (build_error e)]"
    if "BuildDll t \<in> set (fst (run a w))" and "build_dll w t = Inl e" for t e
  proof -
    from that(1) obtain c where pre: "snd (prelude a w) = Inr c"
      and t: "BuildDll t \<in> set (fst (try_body a w c))"
      by (rule run_build_dll)
    from t that(2) have "snd (try_body a w c) = Inl e"
      by (rule try_body_failure)
    with pre show ?thesis
      by (simp add: snd_run fst_run prelude_no_build_error try_body_no_build_error
            build_error_is_error)
  qed
  have stage: "snd (run a w) = Uncaught e"
    if "CheckCall s argv \<in> set (fst (run a w))" and "check_call w argv = Inl e" for s argv e
  proof (cases rule: run_stages [of a w])
    case no_stage
    with that(1) show ?thesis by simp
  next
    case (stages c)
    show ?thesis
      using that stages(3) stages(4) cmake_argv_distinct [of w c]
      by (cases rule: cmake_stages_cases [of w c]) auto
  qed
  from compile stage escaped run_clone_failure [of _ _ _ _ a w] show ?thesis
    by blast
qed


lemma configure_fails_run:
  "run llvm_args configure_fails_world =
     ([PrintArgs llvm_args, EnvGet ''CUDA_HOME'', EnvGet ''CUDA_PATH'',
       PathExists ''/src/external/llvm-project'', OpenRepo ''/src/external/llvm-project'',
       CheckCall Configure (cmake_gen configure_fails_world (setup_config llvm_args))],
      Uncaught tool_failure)"
  by (simp add: run_defs path_defs llvm_args_def release_args_def configure_fails_world_def
        posix_world_def)

lemma clone_fails_run:
  "run llvm_args clone_fails_world =
     ([PrintArgs llvm_args, EnvGet ''CUDA_HOME'', EnvGet ''CUDA_PATH'',
       PathExists ''/src/external/llvm-project'',
       CloneFrom llvm_url ''/src/external/llvm-project'' ''llvmorg-15.0.7'' 1],
      Uncaught tool_failure)"
  by (simp add: run_defs path_defs llvm_args_def release_args_def clone_fails_world_def
        posix_world_def)

lemma compile_fails_run:
  "run release_args compile_fails_world =
     ([PrintArgs release_args, EnvGet ''CUDA_HOME'', EnvGet ''CUDA_PATH'', Print cuda_warning,
       BuildDll (warp_target release_args compile_fails_world (setup_config release_args)),
       Print ''Warp build error: Command returned non-zero exit status 1''],
      SysExit 1)"
  by (simp add: run_defs tool_failure_def release_args_def compile_fails_world_def
        posix_world_def)

text \<open>A failing configure stage: the run ends with the uncaught exception of
  \<^verbatim>\<open>check_call\<close> and has printed nothing but its arguments.\<close>

theorem configure_failure_escapes_counterexample:
  "check_call configure_fails_world (cmake_gen configure_fails_world (setup_config llvm_args))
     = Inl tool_failure
   \<and> run llvm_args configure_fails_world =
     ([PrintArgs llvm_args, EnvGet ''CUDA_HOME'', EnvGet ''CUDA_PATH'',
       PathExists ''/src/external/llvm-project'', OpenRepo ''/src/external/llvm-project'',
       CheckCall Configure (cmake_gen configure_fails_world (setup_config llvm_args))],
      Uncaught tool_failure)"
  by (simp add: configure_fails_run) (simp add: configure_fails_world_def)

theorem failure_boundary_witness:
  "snd (run release_args compile_fails_world) = SysExit 1
   \<and> last (fst (run release_args compile_fails_world)) = Print (build_error tool_failure)
   \<and> filter is_build_error (fst (run release_args compile_fails_world))
       = [Print (build_error tool_failure)]
   \<and> snd (run llvm_args configure_fails_world) = Uncaught tool_failure
   \<and> filter is_build_error (fst (run llvm_args configure_fails_world)) = []
   \<and> snd (run llvm_args clone_fails_world) = Uncaught tool_failure
   \<and> filter is_build_error (fst (run llvm_args clone_fails_world)) = []"
proof -
  have compile: "BuildDll (warp_target release_args compile_fails_world (setup_config release_args))
      \<in> set (fst (run release_args compile_fails_world))"
    "build_dll compile_fails_world
       (warp_target release_args compile_fails_world (setup_config release_args))
      = Inl tool_failure"
    by (simp_all add: compile_fails_run) (simp add: compile_fails_world_def)
  have configure: "CheckCall Configure (cmake_gen configure_fails_world (setup_config llvm_args))
      \<in> set (fst (run llvm_args configure_fails_world))"
    "check_call configure_fails_world (cmake_gen configure_fails_world (setup_config llvm_args))
      = Inl tool_failure"
    by (simp_all add: configure_fails_run) (simp add: configure_fails_world_def)
  have clone: "CloneFrom llvm_url ''/src/external/llvm-project'' ''llvmorg-15.0.7'' 1
      \<in> set (fst (run llvm_args clone_fails_world))"
    "clone_from clone_fails_world llvm_url ''/src/external/llvm-project'' = Inl tool_failure"
    by (simp_all add: clone_fails_run) (simp add: clone_fails_world_def)
  from failure_boundary [of release_args compile_fails_world] compile
  have 1: "snd (run release_args compile_fails_world) = SysExit 1
     \<and> last (fst (run release_args compile_fails_world)) = Print (build_error tool_failure)
     \<and> filter is_build_error (fst (run release_args compile_fails_world))
         = [Print (build_error tool_failure)]"
    by blast
  from failure_boundary [of llvm_args configure_fails_world] configure
  have 2: "snd (run llvm_args configure_fails_world) = Uncaught tool_failure
     \<and> filter is_build_error (fst (run llvm_args configure_fails_world)) = []"
    by blast
  from failure_boundary [of llvm_args clone_fails_world] clone
  have 3: "snd (run llvm_args clone_fails_world) = Uncaught tool_failure
     \<and> filter is_build_error (fst (run llvm_args clone_fails_world)) = []"
    by blast
  from 1 2 3 show ?thesis by simp
qed

subsection \<open>The \<^verbatim>\<open>--mode\<close> option\<close>

lemma fast_run:
  "run fast_args fresh_world =
     ([PrintArgs fast_args, EnvGet ''CUDA_HOME'', EnvGet ''CUDA_PATH'',
       PathExists ''/src/external/llvm-project'',
       CloneFrom llvm_url ''/src/external/llvm-project'' ''llvmorg-15.0.7'' 1,
       CheckCall Configure (cmake_gen fresh_world (setup_config fast_args)),
       CheckCall Build (cmake_build fresh_world (setup_config fast_args)),
       CheckCall Install (cmake_install fresh_world (setup_config fast_args)),
       Walk ''/src/external/llvm-project/out/install/Fast/lib'',
       BuildDll (clang_target fast_args fresh_world (setup_config fast_args)
          [''clang.lib'', ''LLVMCore.lib'', ''Version.lib'',
           libpath_directive ''/src/external/llvm-project/out/install/Fast/lib'']),
       Print cuda_warning,
       BuildDll (warp_target fast_args fresh_world (setup_config fast_args))],
      Finished)"
  by (simp add: run_defs path_defs fast_args_def release_args_def fresh_world_def
        posix_world_def)

text \<open>With \<^verbatim>\<open>--mode fast --build_llvm True\<close> on a machine without an LLVM checkout
  the run clones LLVM, runs the three stages with \<^verbatim>\<open>CMAKE_BUILD_TYPE=Fast\<close>, builds
  both libraries with \<^verbatim>\<open>mode='fast'\<close> and finishes.\<close>

theorem unknown_mode_runs_counterexample:
  "mode fast_args \<noteq> ''release'' \<and> mode fast_args \<noteq> ''debug''
   \<and> run fast_args fresh_world =
     ([PrintArgs fast_args, EnvGet ''CUDA_HOME'', EnvGet ''CUDA_PATH'',
       PathExists ''/src/external/llvm-project'',
       CloneFrom llvm_url ''/src/external/llvm-project'' ''llvmorg-15.0.7'' 1,
       CheckCall Configure (cmake_gen fresh_world (setup_config fast_args)),
       CheckCall Build (cmake_build fresh_world (setup_config fast_args)),
       CheckCall Install (cmake_install fresh_world (setup_config fast_args)),
       Walk ''/src/external/llvm-project/out/install/Fast/lib'',
       BuildDll (clang_target fast_args fresh_world (setup_config fast_args)
          [''clang.lib'', ''LLVMCore.lib'', ''Version.lib'',
           libpath_directive ''/src/external/llvm-project/out/install/Fast/lib'']),
       Print cuda_warning,
       BuildDll (warp_target fast_args fresh_world (setup_config fast_args))],
      Finished)
   \<and> ''CMAKE_BUILD_TYPE=Fast'' \<in> set (cmake_gen fresh_world (setup_config fast_args))
   \<and> mode_kw (warp_target fast_args fresh_world (setup_config fast_args)) = ''fast''"
  by (simp add: fast_run)
     (simp add: cmake_gen_def path_defs warp_target_def setup_config_def fast_args_def
        release_args_def fresh_world_def posix_world_def)

lemma cmake_gen_build_type:
  "''CMAKE_BUILD_TYPE='' @ capitalize w (config_mode c) \<in> set (cmake_gen w c)"
  by (simp add: cmake_gen_def build_type_def)

text \<open>
  Claim C3, as the script has it: no line looks at the value of \<^verbatim>\<open>--mode\<close>. Every
  string is stored in \<^verbatim>\<open>warp.config.mode\<close> and handed on as it is: capitalised by
  \<^verbatim>\<open>str.capitalize\<close>, as \<^verbatim>\<open>CMAKE_BUILD_TYPE\<close> of the configure stage, and
  unchanged as \<^verbatim>\<open>mode\<close> of every call of \<^verbatim>\<open>build_dll\<close>; this holds of the
  command lines and targets the script assembles and of every call a run makes. On a
  machine where the tools the script starts succeed, the run finishes for every mode
  string, after the configure stage when \<^verbatim>\<open>--build_llvm\<close> is set, its last call being
  \<^verbatim>\<open>build_dll\<close> for \<^verbatim>\<open>warp.dll\<close> with that string.
\<close>

theorem mode_is_not_validated:
  "config_mode (setup_config a) = mode a
   \<and> ''CMAKE_BUILD_TYPE='' @ capitalize w (config_mode c) \<in> set (cmake_gen w c)
   \<and> mode_kw (clang_target a w c ls) = config_mode c
   \<and> mode_kw (warp_target a w c) = config_mode c
   \<and> (\<forall>t. BuildDll t \<in> set (fst (run a w)) \<longrightarrow> mode_kw t = mode a)
   \<and> (\<forall>argv. CheckCall Configure argv \<in> set (fst (run a w)) \<longrightarrow>
         ''CMAKE_BUILD_TYPE='' @ capitalize w (mode a) \<in> set argv)
   \<and> ((os_name w = ''nt'' \<longrightarrow> (\<exists>hc. find_host_compiler w = Inr hc \<and> truthy hc))
        \<and> (\<forall>m s. set_msvc_compiler w m s = Inr ())
        \<and> (\<forall>u p. clone_from w u p = Inr ())
        \<and> (\<forall>p. open_repo w p = Inr ())
        \<and> (\<forall>argv. check_call w argv = Inr ())
        \<and> (\<forall>p. walk w p \<noteq> [])
        \<and> (\<forall>t. build_dll w t = Inr ()) \<longrightarrow>
      snd (run a w) = Finished
      \<and> (\<exists>c'. config_mode c' = mode a
            \<and> last (fst (run a w)) = BuildDll (warp_target a w c')
            \<and> (build_llvm a \<longrightarrow>
                 CheckCall Configure (cmake_gen w c') \<in> set (fst (run a w)))))"
proof -
  have 1: "config_mode (setup_config a) = mode a"
    by (simp add: setup_config_def)
  have 2: "mode_kw (clang_target a w c ls) = config_mode c"
    "mode_kw (warp_target a w c) = config_mode c" for c ls
    by (simp_all add: clang_target_def warp_target_def)
  have 3: "mode_kw t = mode a" if "BuildDll t \<in> set (fst (run a w))" for t
  proof -
    from that obtain c' where "snd (prelude a w) = Inr c'"
      and "BuildDll t \<in> set (fst (try_body a w c'))"
      by (rule run_build_dll)
    then show ?thesis
      by (auto dest!: try_body_events simp: 2 prelude_config)
  qed
  have 4: "''CMAKE_BUILD_TYPE='' @ capitalize w (mode a) \<in> set argv"
    if "CheckCall Configure argv \<in> set (fst (run a w))" for argv
  proof (cases rule: run_stages [of a w])
    case no_stage
    with that show ?thesis by simp
  next
    case (stages c')
    from that stages(3) have "argv = cmake_gen w c'"
      by (auto dest!: cmake_stages_events)
    with stages(6) show ?thesis
      using cmake_gen_build_type [of w c'] by simp
  qed
  have 5: "snd (run a w) = Finished
      \<and> (\<exists>c'. config_mode c' = mode a
            \<and> last (fst (run a w)) = BuildDll (warp_target a w c')
            \<and> (build_llvm a \<longrightarrow>
                 CheckCall Configure (cmake_gen w c') \<in> set (fst (run a w))))"
    if host: "os_name w = ''nt'' \<longrightarrow> (\<exists>hc. find_host_compiler w = Inr hc \<and> truthy hc)"
      and msvc: "\<forall>m s. set_msvc_compiler w m s = Inr ()"
      and clone: "\<forall>u p. clone_from w u p = Inr ()"
      and repo: "\<forall>p. open_repo w p = Inr ()"
      and cmake: "\<forall>argv. check_call w argv = Inr ()"
      and lib: "\<forall>p. walk w p \<noteq> []"
      and driver: "\<forall>t. build_dll w t = Inr ()"
  proof -
    let ?c1 = "snd (setup_cuda a w (setup_config a))"
    from host msvc have "\<exists>c'. snd (setup_host_compiler a w ?c1) = Inr c'"
      by (cases "os_name w = ''nt''") (auto simp: setup_host_compiler_def)
    then obtain c' where hc: "snd (setup_host_compiler a w ?c1) = Inr c'"
      by blast
    have co: "snd (checkout w) = Inr ()"
      by (simp add: checkout_def Let_def clone repo)
    have pre: "snd (prelude a w) = Inr c'"
      using hc by (simp add: snd_prelude snd_bootstrap co snd_cmake_stages cmake)
    have body: "snd (try_body a w c') = Inr ()"
      and final: "last (fst (try_body a w c')) = BuildDll (warp_target a w c')"
      and nonempty: "fst (try_body a w c') \<noteq> []"
      using lib [rule_format, of "libpath w c'"]
      by (auto simp: try_body_def build_clang_def build_warp_def Let_def driver
               split: list.splits)
    have a: "snd (run a w) = Finished"
      by (simp add: snd_run pre body)
    have b: "last (fst (run a w)) = BuildDll (warp_target a w c')"
      by (simp add: fst_run pre body nonempty final)
    have c: "config_mode c' = mode a"
      using pre by (simp add: prelude_config(1))
    have d: "CheckCall Configure (cmake_gen w c') \<in> set (fst (run a w))" if "build_llvm a"
      using run_reaches_stages(2) [OF that hc co] .
    from a b c d show ?thesis
      by blast
  qed
  from 1 2 3 4 5 cmake_gen_build_type [of w c] show ?thesis
    by blast
qed

theorem mode_is_not_validated_witness:
  "mode fast_args = ''fast'' \<and> os_name fresh_world \<noteq> ''nt'' \<and> build_llvm fast_args
   \<and> snd (run fast_args fresh_world) = Finished
   \<and> CheckCall Configure (cmake_gen fresh_world (setup_config fast_args))
       \<in> set (fst (run fast_args fresh_world))
   \<and> ''CMAKE_BUILD_TYPE=Fast'' \<in> set (cmake_gen fresh_world (setup_config fast_args))
   \<and> BuildDll (warp_target fast_args fresh_world (setup_config fast_args))
       \<in> set (fst (run fast_args fresh_world))
   \<and> mode_kw (warp_target fast_args fresh_world (setup_config fast_args)) = ''fast''"
proof -
  have posix: "os_name fresh_world \<noteq> ''nt''"
    by (simp add: fresh_world_def posix_world_def)
  have tools: "\<forall>m s. set_msvc_compiler fresh_world m s = Inr ()"
    "\<forall>u p. clone_from fresh_world u p = Inr ()"
    "\<forall>p. open_repo fresh_world p = Inr ()" "\<forall>argv. check_call fresh_world argv = Inr ()"
    "\<forall>p. walk fresh_world p \<noteq> []" "\<forall>t. build_dll fresh_world t = Inr ()"
    by (simp_all add: fresh_world_def posix_world_def)
  have configure: "CheckCall Configure (cmake_gen fresh_world (setup_config fast_args))
       \<in> set (fst (run fast_args fresh_world))"
    and primary: "BuildDll (warp_target fast_args fresh_world (setup_config fast_args))
       \<in> set (fst (run fast_args fresh_world))"
    by (simp_all add: fast_run)
  have fast: "mode fast_args = ''fast''" and llvm: "build_llvm fast_args"
    by (simp_all add: fast_args_def)
  have cap: "capitalize fresh_world ''fast'' = ''Fast''"
    by (simp add: path_defs fresh_world_def posix_world_def)
  note unvalidated =
    mode_is_not_validated [of fast_args fresh_world "setup_config fast_args" "[]"]
  from unvalidated posix tools
  have 1: "snd (run fast_args fresh_world) = Finished"
    by blast
  from unvalidated configure
  have 2: "''CMAKE_BUILD_TYPE='' @ capitalize fresh_world (mode fast_args)
         \<in> set (cmake_gen fresh_world (setup_config fast_args))"
    by blast
  from unvalidated primary
  have 3: "mode_kw (warp_target fast_args fresh_world (setup_config fast_args))
         = mode fast_args"
    by blast
  from 1 2 3 posix configure primary fast llvm show ?thesis
    by (simp add: cap)
qed

subsection \<open>An LLVM checkout that is already there\<close>

lemma checkout_existing:
  assumes "path_exists w (llvm_project_path w)"
  shows "fst (checkout w) = [PathExists (llvm_project_path w), OpenRepo (llvm_project_path w)]"
    and "snd (checkout w) =
           (case open_repo w (llvm_project_path w) of Inl e \<Rightarrow> Inl (Uncaught e) | Inr u \<Rightarrow> Inr ())"
  using assms by (simp_all add: checkout_def Let_def split: sum.splits)

lemma no_clone_parts:
  "\<not> is_clone e" if "e \<in> set (fst (setup_cuda a w c))
     \<or> e \<in> set (fst (setup_host_compiler a w c)) \<or> e \<in> set (fst (cmake_stages w c))
     \<or> e \<in> set (fst (try_body a w c))"
  using that
  by (auto dest!: setup_cuda_events setup_host_compiler_events cmake_stages_events
                  try_body_events)

lemma bootstrap_existing:
  assumes "path_exists w (llvm_project_path w)"
  shows "filter is_clone (fst (bootstrap w c)) = []"
    and "take 2 (fst (bootstrap w c))
           = [PathExists (llvm_project_path w), OpenRepo (llvm_project_path w)]"
proof -
  note co = checkout_existing [OF assms]
  have "\<not> is_clone e" if "e \<in> set (fst (bootstrap w c))" for e
    using that no_clone_parts [of e _ w c]
    by (auto simp: fst_bootstrap co split: sum.splits)
  then show "filter is_clone (fst (bootstrap w c)) = []"
    by (auto simp: filter_empty_conv)
  show "take 2 (fst (bootstrap w c))
      = [PathExists (llvm_project_path w), OpenRepo (llvm_project_path w)]"
    by (simp add: fst_bootstrap co split: sum.splits)
qed

lemma after_checkout_exists:
  "llvm_project_path (after_checkout w) = llvm_project_path w"
  "path_exists (after_checkout w) (llvm_project_path (after_checkout w))"
  by (simp_all add: after_checkout_def llvm_project_path_def)

text \<open>
  Claim C6: when \<^verbatim>\<open>external/llvm-project\<close> exists, neither the bootstrap nor the run
  it belongs to clones anything; the bootstrap tests the path and opens the repository
  as it is. Once it is opened, the bootstrap goes on with the three stages and ends as
  they end: configure is invoked, build after it when configure succeeded, install
  after that when build succeeded, so that all three run, in order, when configure and
  build succeed. On the machine a successful checkout leaves behind the path exists,
  so the next bootstrap clones nothing and opens the repository.
\<close>

theorem existing_checkout_is_reused:
  assumes "path_exists w (llvm_project_path w)"
  shows "filter is_clone (fst (bootstrap w c)) = []
         \<and> filter is_clone (fst (run a w)) = []
         \<and> take 2 (fst (bootstrap w c))
             = [PathExists (llvm_project_path w), OpenRepo (llvm_project_path w)]
         \<and> (open_repo w (llvm_project_path w) = Inr () \<longrightarrow>
              fst (bootstrap w c) =
                [PathExists (llvm_project_path w), OpenRepo (llvm_project_path w)]
                  @ fst (cmake_stages w c)
              \<and> snd (bootstrap w c) = snd (cmake_stages w c)
              \<and> stages_of (fst (bootstrap w c)) =
                  (case check_call w (cmake_gen w c) of
                     Inl e \<Rightarrow> [Configure]
                   | Inr u \<Rightarrow>
                       (case check_call w (cmake_build w c) of
                          Inl e \<Rightarrow> [Configure, Build]
                        | Inr u \<Rightarrow> [Configure, Build, Install])))
         \<and> (open_repo w (llvm_project_path w) = Inr () \<and> check_call w (cmake_gen w c) = Inr ()
              \<and> check_call w (cmake_build w c) = Inr () \<longrightarrow>
              stages_of (fst (bootstrap w c)) = [Configure, Build, Install])
         \<and> path_exists (after_checkout w') (llvm_project_path (after_checkout w'))
         \<and> filter is_clone (fst (bootstrap (after_checkout w') c)) = []
         \<and> take 2 (fst (bootstrap (after_checkout w') c))
             = [PathExists (llvm_project_path w'), OpenRepo (llvm_project_path w')]"
proof -
  note co = checkout_existing [OF assms]
  note boot = bootstrap_existing [OF assms]
  have "\<not> is_clone e" if "e \<in> set (fst (run a w))" for e
  proof -
    have "\<not> is_clone e" if "e \<in> set (fst (bootstrap w c'))" for c'
      using that bootstrap_existing(1) [OF assms, of c'] by (auto simp: filter_empty_conv)
    with \<open>e \<in> set (fst (run a w))\<close> no_clone_parts [of e a w] show ?thesis
      by (auto simp: fst_run fst_prelude split: sum.splits if_splits)
  qed
  then have 2: "filter is_clone (fst (run a w)) = []"
    by (auto simp: filter_empty_conv)
  have 4: "fst (bootstrap w c) =
      [PathExists (llvm_project_path w), OpenRepo (llvm_project_path w)] @ fst (cmake_stages w c)
      \<and> snd (bootstrap w c) = snd (cmake_stages w c)"
    if "open_repo w (llvm_project_path w) = Inr ()"
    using that by (simp add: fst_bootstrap snd_bootstrap co)
  have 5: "stages_of (fst (bootstrap w c)) =
                  (case check_call w (cmake_gen w c) of
                     Inl e \<Rightarrow> [Configure]
                   | Inr u \<Rightarrow>
                       (case check_call w (cmake_build w c) of
                          Inl e \<Rightarrow> [Configure, Build]
                        | Inr u \<Rightarrow> [Configure, Build, Install]))"
    if "open_repo w (llvm_project_path w) = Inr ()"
    using 4 [OF that] by (simp add: stages_of_cmake_stages)
  have 6: "stages_of (fst (bootstrap w c)) = [Configure, Build, Install]"
    if "open_repo w (llvm_project_path w) = Inr ()" "check_call w (cmake_gen w c) = Inr ()"
      "check_call w (cmake_build w c) = Inr ()"
    using 5 [OF that(1)] that(2,3) by simp
  note second = bootstrap_existing [OF after_checkout_exists(2), of w' c]
  from boot 2 4 5 6 second after_checkout_exists [of w'] show ?thesis
    by simp
qed

lemma fresh_bootstrap_clones:
  "filter is_clone (fst (bootstrap fresh_world (setup_config llvm_args)))
     = [CloneFrom llvm_url ''/src/external/llvm-project'' ''llvmorg-15.0.7'' 1]"
  by (simp add: bootstrap_def checkout_def cmake_stages_def run_check_call_def then_step_def
        Let_def path_defs fresh_world_def posix_world_def)

theorem existing_checkout_is_reused_witness:
  "path_exists posix_world (llvm_project_path posix_world)
   \<and> filter is_clone (fst (run llvm_args posix_world)) = []
   \<and> take 2 (fst (bootstrap posix_world (setup_config llvm_args)))
       = [PathExists ''/src/external/llvm-project'', OpenRepo ''/src/external/llvm-project'']
   \<and> stages_of (fst (bootstrap posix_world (setup_config llvm_args)))
       = [Configure, Build, Install]
   \<and> filter is_clone (fst (bootstrap fresh_world (setup_config llvm_args)))
       = [CloneFrom llvm_url ''/src/external/llvm-project'' ''llvmorg-15.0.7'' 1]
   \<and> filter is_clone (fst (bootstrap (after_checkout fresh_world) (setup_config llvm_args)))
       = []"
proof -
  have present: "path_exists posix_world (llvm_project_path posix_world)"
    by (simp add: posix_world_def)
  have ok: "open_repo posix_world (llvm_project_path posix_world) = Inr ()"
    "check_call posix_world (cmake_gen posix_world (setup_config llvm_args)) = Inr ()"
    "check_call posix_world (cmake_build posix_world (setup_config llvm_args)) = Inr ()"
    by (simp_all add: posix_world_def)
  have path: "llvm_project_path posix_world = ''/src/external/llvm-project''"
    by (simp add: path_defs posix_world_def)
  from existing_checkout_is_reused
    [OF present, of "setup_config llvm_args" llvm_args fresh_world] ok
  have "filter is_clone (fst (run llvm_args posix_world)) = []
     \<and> take 2 (fst (bootstrap posix_world (setup_config llvm_args)))
         = [PathExists (llvm_project_path posix_world), OpenRepo (llvm_project_path posix_world)]
     \<and> stages_of (fst (bootstrap posix_world (setup_config llvm_args)))
         = [Configure, Build, Install]
     \<and> filter is_clone (fst (bootstrap (after_checkout fresh_world) (setup_config llvm_args)))
         = []"
    by blast
  with present show ?thesis
    by (simp add: path fresh_bootstrap_clones)
qed

subsection \<open>The libraries \<^verbatim>\<open>clang.dll\<close> is linked with\<close>

lemma libpath_mode: "config_mode c = config_mode c' \<Longrightarrow> libpath w c = libpath w c'"
  by (simp add: libpath_def llvm_install_path_def build_type_def)

lemma prelude_libpath: "snd (prelude a w) = Inr c \<Longrightarrow> libpath w c = libpath w (setup_config a)"
  by (rule libpath_mode) (simp add: prelude_config(1) setup_config_def)

lemma take_2_append: "take 2 xs = [x, y] \<Longrightarrow> take 2 (xs @ ys) = [x, y]"
  by (cases xs; cases "tl xs") auto

text \<open>
  Claim C7: the call of \<^verbatim>\<open>build_dll\<close> for \<^verbatim>\<open>clang.dll\<close> passes its list as
  \<^verbatim>\<open>libs\<close>. With \<^verbatim>\<open>--build_llvm\<close>, when \<^verbatim>\<open>os.walk\<close> on the \<^verbatim>\<open>lib\<close> directory of
  the LLVM install yields the files of its top level first, then once the steps before
  the \<^verbatim>\<open>try\<close> are through the next two things the run does are listing that
  directory and calling \<^verbatim>\<open>build_dll\<close> for \<^verbatim>\<open>clang.dll\<close>, and the \<^verbatim>\<open>libs\<close> of
  that call are those files, then \<^verbatim>\<open>Version.lib\<close>, then \<^verbatim>\<open>/LIBPATH:\<close> followed by
  that directory in double quotes: two entries more than there are files. A run
  calls \<^verbatim>\<open>build_dll\<close> for that target or for \<^verbatim>\<open>warp.dll\<close>, and no call of a run
  passes another list.
\<close>

theorem clang_libs_listing:
  assumes \<open>build_llvm a\<close>
    and \<open>walk w (libpath w (setup_config a)) = (root, dirs, files) # rest\<close>
  shows \<open>libpath w c = path_join w (llvm_install_path w c) ''lib''
         \<and> libs (clang_target a w c ls) = Some ls
         \<and> length (files @ [''Version.lib'', ''/LIBPATH:"'' @ libpath w (setup_config a) @ ''"''])
             = length files + 2
         \<and> (snd (prelude a w) = Inr c \<longrightarrow>
              libpath w c = libpath w (setup_config a)
              \<and> take 2 (drop (length (fst (prelude a w))) (fst (run a w))) =
                  [Walk (libpath w c),
                   BuildDll (clang_target a w c
                     (files @ [''Version.lib'', ''/LIBPATH:"'' @ libpath w c @ ''"'']))]
              \<and> libs (clang_target a w c
                     (files @ [''Version.lib'', ''/LIBPATH:"'' @ libpath w c @ ''"'']))
                  = Some (files @ [''Version.lib'', ''/LIBPATH:"'' @ libpath w c @ ''"''])
              \<and> (\<forall>t. BuildDll t \<in> set (fst (run a w)) \<longrightarrow>
                    t = warp_target a w c
                    \<or> t = clang_target a w c
                         (files @ [''Version.lib'', ''/LIBPATH:"'' @ libpath w c @ ''"''])))
         \<and> (\<forall>t. BuildDll t \<in> set (fst (run a w)) \<and> libs t \<noteq> None \<longrightarrow>
              libs t = Some (files @ [''Version.lib'',
                ''/LIBPATH:"'' @ libpath w (setup_config a) @ ''"'']))\<close>
proof -
  let ?ls = \<open>\<lambda>c. files @ [''Version.lib'', ''/LIBPATH:"'' @ libpath w c @ ''"'']\<close>
  have field: "libs (clang_target a w c ls) = Some ls" for c ls
    by (simp add: clang_target_def)
  have clang: "fst (build_clang a w c) = [Walk (libpath w c), BuildDll (clang_target a w c (?ls c))]"
    if "snd (prelude a w) = Inr c" for c
    using assms(2) prelude_libpath [OF that]
    by (simp add: build_clang_def Let_def libpath_directive_def)
  have body: "take 2 (fst (try_body a w c))
      = [Walk (libpath w c), BuildDll (clang_target a w c (?ls c))]"
    if "snd (prelude a w) = Inr c" for c
    using assms(1) clang [OF that]
    by (simp add: try_body_def case_prod_beta split: sum.splits prod.splits)
  have next_two: "take 2 (drop (length (fst (prelude a w))) (fst (run a w)))
      = [Walk (libpath w c), BuildDll (clang_target a w c (?ls c))]"
    if "snd (prelude a w) = Inr c" for c
  proof -
    have "take 2 (fst (try_body a w c) @ es)
        = [Walk (libpath w c), BuildDll (clang_target a w c (?ls c))]" for es
      using body [OF that] by (rule take_2_append)
    moreover have "drop (length (fst (prelude a w))) (fst (run a w)) =
        fst (try_body a w c) @
          (case snd (try_body a w c) of Inl e \<Rightarrow> [Print (build_error e)] | Inr u \<Rightarrow> [])"
      using that by (simp add: fst_run split: sum.splits)
    ultimately show ?thesis
      by (simp only:)
  qed
  have only: "t = warp_target a w c \<or> t = clang_target a w c (?ls c)"
    if "snd (prelude a w) = Inr c" and "BuildDll t \<in> set (fst (run a w))" for c t
  proof -
    from that(2) obtain c' where "snd (prelude a w) = Inr c'"
      and "BuildDll t \<in> set (fst (try_body a w c'))"
      by (rule run_build_dll)
    with that(1) have "BuildDll t \<in> set (fst (try_body a w c))"
      by simp
    then have "t = warp_target a w c \<or> BuildDll t \<in> set (fst (build_clang a w c))"
      by (auto simp: try_body_def build_warp_def Let_def
               split: if_splits prod.splits sum.splits)
    with clang [OF that(1)] show ?thesis
      by auto
  qed
  have passed: "libs t = Some (?ls (setup_config a))"
    if "BuildDll t \<in> set (fst (run a w))" and "libs t \<noteq> None" for t
  proof -
    from that(1) obtain c where pre: "snd (prelude a w) = Inr c"
      by (rule run_build_dll)
    from only [OF pre that(1)] that(2) have "t = clang_target a w c (?ls c)"
      by (auto simp: warp_target_def)
    with prelude_libpath [OF pre] show ?thesis
      by (simp add: field)
  qed
  have dir: "libpath w c = path_join w (llvm_install_path w c) ''lib''"
    by (simp add: libpath_def)
  have len: "length (?ls (setup_config a)) = length files + 2"
    by simp
  from dir field len next_two only passed prelude_libpath [of a w c] show ?thesis
    by blast
qed

theorem clang_libs_listing_witness:
  \<open>build_llvm llvm_args
   \<and> libpath posix_world (setup_config llvm_args)
       = ''/src/external/llvm-project/out/install/Release/lib''
   \<and> walk posix_world ''/src/external/llvm-project/out/install/Release/lib''
       = [(''/src/external/llvm-project/out/install/Release/lib'', [],
           [''clang.lib'', ''LLVMCore.lib''])]
   \<and> snd (prelude llvm_args posix_world) = Inr (setup_config llvm_args)
   \<and> take 2 (drop (length (fst (prelude llvm_args posix_world)))
        (fst (run llvm_args posix_world))) =
       [Walk ''/src/external/llvm-project/out/install/Release/lib'',
        BuildDll (clang_target llvm_args posix_world (setup_config llvm_args)
          [''clang.lib'', ''LLVMCore.lib'', ''Version.lib'',
           ''/LIBPATH:"/src/external/llvm-project/out/install/Release/lib"''])]
   \<and> libs (clang_target llvm_args posix_world (setup_config llvm_args)
          [''clang.lib'', ''LLVMCore.lib'', ''Version.lib'',
           ''/LIBPATH:"/src/external/llvm-project/out/install/Release/lib"''])
       = Some [''clang.lib'', ''LLVMCore.lib'', ''Version.lib'',
           ''/LIBPATH:"/src/external/llvm-project/out/install/Release/lib"'']
   \<and> length [''clang.lib'', ''LLVMCore.lib'', ''Version.lib'',
           ''/LIBPATH:"/src/external/llvm-project/out/install/Release/lib"''] = 2 + 2\<close>
proof -
  have llvm: "build_llvm llvm_args"
    by (simp add: llvm_args_def)
  have dir: "libpath posix_world (setup_config llvm_args)
      = ''/src/external/llvm-project/out/install/Release/lib''"
    by (simp add: path_defs setup_config_def llvm_args_def release_args_def posix_world_def)
  have listing: "walk posix_world (libpath posix_world (setup_config llvm_args))
      = (''/src/external/llvm-project/out/install/Release/lib'', [],
         [''clang.lib'', ''LLVMCore.lib'']) # []"
    by (simp add: dir) (simp add: posix_world_def)
  have pre: "snd (prelude llvm_args posix_world) = Inr (setup_config llvm_args)"
    by (simp add: run_defs llvm_args_def release_args_def posix_world_def)
  from clang_libs_listing [OF llvm listing, of "setup_config llvm_args"] pre
  have \<open>take 2 (drop (length (fst (prelude llvm_args posix_world)))
        (fst (run llvm_args posix_world))) =
       [Walk (libpath posix_world (setup_config llvm_args)),
        BuildDll (clang_target llvm_args posix_world (setup_config llvm_args)
          ([''clang.lib'', ''LLVMCore.lib''] @ [''Version.lib'',
             ''/LIBPATH:"'' @ libpath posix_world (setup_config llvm_args) @ ''"'']))]
     \<and> libs (clang_target llvm_args posix_world (setup_config llvm_args)
          ([''clang.lib'', ''LLVMCore.lib''] @ [''Version.lib'',
             ''/LIBPATH:"'' @ libpath posix_world (setup_config llvm_args) @ ''"'']))
       = Some ([''clang.lib'', ''LLVMCore.lib''] @ [''Version.lib'',
             ''/LIBPATH:"'' @ libpath posix_world (setup_config llvm_args) @ ''"''])\<close>
    by blast
  with llvm pre show ?thesis
    by (simp add: dir) (simp add: posix_world_def)
qed

subsection \<open>Building without CUDA\<close>

text \<open>
  Claim C8: when the steps before the \<^verbatim>\<open>try\<close> are through with
  \<^verbatim>\<open>warp.config.cuda_path\<close> being \<^verbatim>\<open>None\<close> and, with \<^verbatim>\<open>--build_llvm\<close>,
  \<^verbatim>\<open>clang.dll\<close> has been built, the run prints the warning about the missing CUDA
  toolchain and then calls \<^verbatim>\<open>build_dll\<close> for \<^verbatim>\<open>warp.dll\<close> with \<^verbatim>\<open>cu_path=None\<close>.
  When that call returns, the run is finished and the exit status is 0; when it raises,
  the \<^verbatim>\<open>except\<close> block prints the error and the exit status is 1.
\<close>

theorem cpu_only_build:
  assumes "snd (prelude a w) = Inr c" and "config_cuda_path c = None"
    and "build_llvm a \<Longrightarrow> snd (build_clang a w c) = Inr ()"
  shows "cu_path (warp_target a w c) = None
         \<and> fst (run a w) =
             fst (prelude a w) @ (if build_llvm a then fst (build_clang a w c) else [])
               @ [Print cuda_warning, BuildDll (warp_target a w c)]
               @ (case build_dll w (warp_target a w c) of
                    Inl e \<Rightarrow> [Print (build_error e)] | Inr u \<Rightarrow> [])
         \<and> (build_dll w (warp_target a w c) = Inr () \<longrightarrow>
               snd (run a w) = Finished \<and> exit_status (snd (run a w)) = 0)
         \<and> (\<forall>e. build_dll w (warp_target a w c) = Inl e \<longrightarrow> snd (run a w) = SysExit 1)"
proof -
  have 1: "cu_path (warp_target a w c) = None"
    using assms(2) by (simp add: warp_target_def)
  have warp: "build_warp a w c =
      ([Print cuda_warning, BuildDll (warp_target a w c)], build_dll w (warp_target a w c))"
    using assms(2) by (simp add: build_warp_def Let_def)
  have body: "fst (try_body a w c) =
      (if build_llvm a then fst (build_clang a w c) else [])
        @ [Print cuda_warning, BuildDll (warp_target a w c)]"
    and result: "snd (try_body a w c) = build_dll w (warp_target a w c)"
    using assms(3) by (auto simp: try_body_def warp split: prod.splits sum.splits)
  have 2: "fst (run a w) =
      fst (prelude a w) @ (if build_llvm a then fst (build_clang a w c) else [])
        @ [Print cuda_warning, BuildDll (warp_target a w c)]
        @ (case build_dll w (warp_target a w c) of
             Inl e \<Rightarrow> [Print (build_error e)] | Inr u \<Rightarrow> [])"
    using assms(1) by (simp add: fst_run body result split: sum.splits)
  have 3: "snd (run a w) = Finished \<and> exit_status (snd (run a w)) = 0"
    if "build_dll w (warp_target a w c) = Inr ()"
    using assms(1) that by (simp add: snd_run result)
  have 4: "snd (run a w) = SysExit 1" if "build_dll w (warp_target a w c) = Inl e" for e
    using assms(1) that by (simp add: snd_run result)
  from 1 2 3 4 show ?thesis by blast
qed

lemma release_run:
  "run release_args posix_world =
     ([PrintArgs release_args, EnvGet ''CUDA_HOME'', EnvGet ''CUDA_PATH'', Print cuda_warning,
       BuildDll (warp_target release_args posix_world (setup_config release_args))],
      Finished)"
  by (simp add: run_defs release_args_def posix_world_def)

lemma release_prelude:
  "prelude release_args posix_world =
     ([PrintArgs release_args, EnvGet ''CUDA_HOME'', EnvGet ''CUDA_PATH''],
      Inr (setup_config release_args))"
  by (simp add: run_defs release_args_def posix_world_def)

theorem cpu_only_build_witness:
  "snd (prelude release_args posix_world) = Inr (setup_config release_args)
   \<and> config_cuda_path (setup_config release_args) = None
   \<and> \<not> build_llvm release_args
   \<and> cu_path (warp_target release_args posix_world (setup_config release_args)) = None
   \<and> fst (run release_args posix_world) =
       [PrintArgs release_args, EnvGet ''CUDA_HOME'', EnvGet ''CUDA_PATH'', Print cuda_warning,
        BuildDll (warp_target release_args posix_world (setup_config release_args))]
   \<and> exit_status (snd (run release_args posix_world)) = 0"
proof -
  have pre: "snd (prelude release_args posix_world) = Inr (setup_config release_args)"
    by (simp add: release_prelude)
  have absent: "config_cuda_path (setup_config release_args) = None"
    by (simp add: setup_config_def)
  have plain: "\<not> build_llvm release_args"
    by (simp add: release_args_def)
  have ok: "build_dll posix_world
      (warp_target release_args posix_world (setup_config release_args)) = Inr ()"
    by (simp add: posix_world_def)
  from cpu_only_build [OF pre absent] plain ok
  have "cu_path (warp_target release_args posix_world (setup_config release_args)) = None
     \<and> fst (run release_args posix_world) =
         fst (prelude release_args posix_world)
           @ [Print cuda_warning,
              BuildDll (warp_target release_args posix_world (setup_config release_args))]
     \<and> exit_status (snd (run release_args posix_world)) = 0"
    by simp
  with pre absent plain show ?thesis
    by (simp add: release_prelude)
qed

end
